theory Spec2Isabelle
  imports
    Complex_Main
    "HOL-Library.Product_Lexorder"
    "HOL-Library.List_Lexorder"
    "HOL-Library.Char_ord"
    "HOL-Library.Sublist"
begin

section \<open>The budget dashboard of app2.py\<close>

text \<open>
  The script reads an uploaded CSV file into a pandas DataFrame, adds three converted
  columns, filters the rows by a date range and a category selection, and shows four
  figures, two grouped sums, the filtered table and a download of it. The script runs
  top to bottom once per interaction; \<^verbatim>\<open>st.stop()\<close> ends the run.

  The model follows the script line by line. What belongs to pandas (the CSV reader,
  the date and number parsers, the text form of a scalar, the sums and the mean of
  float64 values) is a parameter of the model, so every theorem holds for every such
  library. A number cell holds the real number its float64 or int64 value stands for,
  NaN is a value of its own; how the library rounds a sum is the library's.
\<close>

subsection \<open>Scalars, rows and frames\<close>

text \<open>
  \<^verbatim>\<open>datetime.date\<close> is year, month, day; a pandas Timestamp is a day and the
  nanoseconds since midnight. On both, the lexicographic order is the order in time.
\<close>

type_synonym date = "nat \<times> nat \<times> nat"
type_synonym timestamp = "date \<times> nat"

text \<open>
  A cell of a DataFrame: the missing value NaN, the missing time NaT, a Python string,
  a number or a Timestamp.
\<close>

datatype cell = NaN | NaT | Str string | Num real | Stamp timestamp

text \<open>
  A row maps column names to cells; a frame is the ordered column names and the
  ordered rows (the spec's Table and Record).
\<close>

type_synonym row = "string \<rightharpoonup> cell"

record frame =
  columns :: "string list"
  rows :: "row list"

text \<open>What pandas does and the script only calls.\<close>

record pandas =
  to_datetime :: "cell list \<Rightarrow> timestamp option list"
  to_numeric :: "string list \<Rightarrow> real option list"
  py_str :: "cell \<Rightarrow> string"
  csv_field :: "cell \<Rightarrow> string"
  sum_floats :: "real list \<Rightarrow> real"
  mean_floats :: "real list \<Rightarrow> real"
  group_sum_floats :: "real list \<Rightarrow> real"

datatype exn = KeyError string | ReadError | TypeError

text \<open>How a run ends before the dashboard is shown.\<close>

datatype halt =
    NoUpload
  | CouldNotRead
  | InvalidDateRange
  | NoRecords
  | Raised exn

subsection \<open>DataFrame operations\<close>

text \<open>A cell a row does not hold reads as NaN.\<close>

definition cell_at :: "row \<Rightarrow> string \<Rightarrow> cell" where
  "cell_at r c = (case r c of None \<Rightarrow> NaN | Some v \<Rightarrow> v)"

text \<open>\<^verbatim>\<open>df[c]\<close>: the column as a list, KeyError for an unknown name.\<close>

definition column :: "frame \<Rightarrow> string \<Rightarrow> cell list" where
  "column df c = map (\<lambda>r. cell_at r c) (rows df)"

definition getitem :: "frame \<Rightarrow> string \<Rightarrow> exn + cell list" where
  "getitem df c = (if c \<in> set (columns df) then Inr (column df c) else Inl (KeyError c))"

text \<open>
  \<^verbatim>\<open>df[c] = series\<close>: the values are aligned with the frame's rows; a row the
  series has no value for gets NaN, values beyond the last row are dropped. An
  existing column is overwritten in place, a new one is appended.
\<close>

definition aligned :: "cell list \<Rightarrow> nat \<Rightarrow> cell" where
  "aligned vs i = (if i < length vs then vs ! i else NaN)"

fun assign_rows :: "row list \<Rightarrow> string \<Rightarrow> cell list \<Rightarrow> row list" where
  "assign_rows [] c vs = []"
| "assign_rows (r # rs) c [] = r(c \<mapsto> NaN) # assign_rows rs c []"
| "assign_rows (r # rs) c (v # vs) = r(c \<mapsto> v) # assign_rows rs c vs"

definition add_column :: "string list \<Rightarrow> string \<Rightarrow> string list" where
  "add_column cs c = (if c \<in> set cs then cs else cs @ [c])"

definition setitem :: "frame \<Rightarrow> string \<Rightarrow> cell list \<Rightarrow> frame" where
  "setitem df c vs =
     \<lparr>columns = add_column (columns df) c, rows = assign_rows (rows df) c vs\<rparr>"

text \<open>\<^verbatim>\<open>df[c] = value\<close>: the same scalar in every row.\<close>

definition setitem_scalar :: "frame \<Rightarrow> string \<Rightarrow> cell \<Rightarrow> frame" where
  "setitem_scalar df c v =
     \<lparr>columns = add_column (columns df) c, rows = map (\<lambda>r. r(c \<mapsto> v)) (rows df)\<rparr>"

text \<open>\<^verbatim>\<open>df[mask]\<close>: the rows whose mask entry is True, in their order.\<close>

definition mask_rows :: "frame \<Rightarrow> bool list \<Rightarrow> frame" where
  "mask_rows df keep =
     \<lparr>columns = columns df, rows = map snd (filter fst (zip keep (rows df)))\<rparr>"

text \<open>\<^verbatim>\<open>df.empty\<close>: no row or no column.\<close>

definition empty :: "frame \<Rightarrow> bool" where
  "empty df = (rows df = [] \<or> columns df = [])"

definition isna :: "cell \<Rightarrow> bool" where
  "isna c = (c = NaN \<or> c = NaT)"

definition fillna :: "cell \<Rightarrow> cell \<Rightarrow> cell" where
  "fillna v c = (if isna c then v else c)"

text \<open>\<^verbatim>\<open>astype(str)\<close>: a string is itself, any other scalar has the library's text.\<close>

definition astype_str :: "pandas \<Rightarrow> cell \<Rightarrow> string" where
  "astype_str lib c = (case c of Str s \<Rightarrow> s | _ \<Rightarrow> py_str lib c)"

text \<open>\<^verbatim>\<open>.str.replace(",", "")\<close>\<close>

definition str_replace_comma :: "string \<Rightarrow> string" where
  "str_replace_comma s = filter (\<lambda>ch. ch \<noteq> CHR '','') s"

definition date_cell :: "timestamp option \<Rightarrow> cell" where
  "date_cell d = (case d of None \<Rightarrow> NaT | Some t \<Rightarrow> Stamp t)"

definition num_cell :: "real option \<Rightarrow> cell" where
  "num_cell x = (case x of None \<Rightarrow> NaN | Some a \<Rightarrow> Num a)"

subsection \<open>Reading the upload (lines 74 to 83)\<close>

datatype encoding = Default | Utf8Sig | Latin1

text \<open>An uploaded file: its bytes and the read position.\<close>

record upload =
  content :: string
  pos :: nat

definition seek :: "nat \<Rightarrow> upload \<Rightarrow> upload" where
  "seek n f = f\<lparr>pos := n\<rparr>"

text \<open>
  \<^verbatim>\<open>pd.read_csv(file, encoding=...)\<close> parses the bytes from the read position on; the
  parser itself is a parameter.
\<close>

definition read_csv ::
  "(encoding \<Rightarrow> string \<Rightarrow> exn + frame) \<Rightarrow> encoding \<Rightarrow> upload \<Rightarrow> exn + frame" where
  "read_csv parse enc f = parse enc (drop (pos f) (content f))"

text \<open>\<^verbatim>\<open>try: a  except: b\<close> with a bare except.\<close>

definition try_except :: "exn + 'a \<Rightarrow> (exn + 'a) \<Rightarrow> exn + 'a" where
  "try_except a b = (case a of Inr x \<Rightarrow> Inr x | Inl e \<Rightarrow> b)"

definition safe_read :: "(encoding \<Rightarrow> string \<Rightarrow> exn + frame) \<Rightarrow> upload \<Rightarrow> exn + frame" where
  "safe_read parse file =
     try_except (read_csv parse Default file)
       (try_except (read_csv parse Utf8Sig (seek 0 file))
          (read_csv parse Latin1 (seek 0 file)))"

subsection \<open>Converting the fields (lines 108 to 114)\<close>

text \<open>Line 108: the parsed dates, NaT where the library finds no date.\<close>

definition parse_dates :: "pandas \<Rightarrow> cell list \<Rightarrow> cell list" where
  "parse_dates lib ds = map date_cell (to_datetime lib ds)"

definition set_date :: "pandas \<Rightarrow> frame \<Rightarrow> string \<Rightarrow> exn + frame" where
  "set_date lib df date_col =
     (case getitem df date_col of
        Inl e \<Rightarrow> Inl e
      | Inr ds \<Rightarrow> Inr (setitem df ''_date'' (parse_dates lib ds)))"

text \<open>Line 109: the amounts, read from the text without its commas, NaN where there is no number.\<close>

definition parse_amounts :: "pandas \<Rightarrow> cell list \<Rightarrow> cell list" where
  "parse_amounts lib ams =
     map num_cell (to_numeric lib (map (\<lambda>c. str_replace_comma (astype_str lib c)) ams))"

definition set_amount :: "pandas \<Rightarrow> frame \<Rightarrow> string \<Rightarrow> exn + frame" where
  "set_amount lib df amount_col =
     (case getitem df amount_col of
        Inl e \<Rightarrow> Inl e
      | Inr ams \<Rightarrow> Inr (setitem df ''_amount'' (parse_amounts lib ams)))"

text \<open>Lines 111 to 114: the category as text, or the one category for the choice (none).\<close>

definition category_text :: "pandas \<Rightarrow> cell \<Rightarrow> cell" where
  "category_text lib c = Str (astype_str lib (fillna (Str ''Uncategorized'') c))"

definition set_category :: "pandas \<Rightarrow> frame \<Rightarrow> string \<Rightarrow> exn + frame" where
  "set_category lib df category_col =
     (if category_col \<noteq> ''(none)'' then
        (case getitem df category_col of
           Inl e \<Rightarrow> Inl e
         | Inr cs \<Rightarrow> Inr (setitem df ''_category'' (map (category_text lib) cs)))
      else Inr (setitem_scalar df ''_category'' (Str ''Uncategorized'')))"

definition convert_fields ::
  "pandas \<Rightarrow> frame \<Rightarrow> string \<Rightarrow> string \<Rightarrow> string \<Rightarrow> exn + frame" where
  "convert_fields lib df date_col amount_col category_col =
     (case set_date lib df date_col of
        Inl e \<Rightarrow> Inl e
      | Inr df1 \<Rightarrow>
          (case set_amount lib df1 amount_col of
             Inl e \<Rightarrow> Inl e
           | Inr df2 \<Rightarrow> set_category lib df2 category_col))"

subsection \<open>The default date range (lines 117 to 122)\<close>

text \<open>\<^verbatim>\<open>Series.min()\<close> and \<^verbatim>\<open>Series.max()\<close> of a date column skip NaT; with no date left they are NaT.\<close>

definition stamps :: "frame \<Rightarrow> string \<Rightarrow> timestamp list" where
  "stamps df c =
     List.map_filter (\<lambda>r. case cell_at r c of Stamp t \<Rightarrow> Some t | _ \<Rightarrow> None) (rows df)"

fun date_min :: "timestamp list \<Rightarrow> cell" where
  "date_min [] = NaT"
| "date_min (t # ts) = Stamp (fold min ts t)"

fun date_max :: "timestamp list \<Rightarrow> cell" where
  "date_max [] = NaT"
| "date_max (t # ts) = Stamp (fold max ts t)"

text \<open>An endpoint handed to the date picker: a Timestamp (or NaT) of the table, or a date.\<close>

datatype endpoint = Of_table cell | Of_date date

text \<open>\<^verbatim>\<open>date.today().replace(month=1, day=1)\<close>\<close>

definition first_of_year :: "date \<Rightarrow> date" where
  "first_of_year d = (case d of (y, m, dd) \<Rightarrow> (y, 1, 1))"

definition default_range :: "date \<Rightarrow> frame \<Rightarrow> endpoint \<times> endpoint" where
  "default_range today df =
     (let min_d = date_min (stamps df ''_date'');
          max_d = date_max (stamps df ''_date'')
      in if isna min_d then (Of_date (first_of_year today), Of_date today)
         else (Of_table min_d, Of_table max_d))"

subsection \<open>Filtering (lines 134 to 136)\<close>

text \<open>
  A Python value that a date column is compared with: a \<^verbatim>\<open>datetime.date\<close>, as the
  date picker returns, or a Timestamp.
\<close>

datatype pyvalue = Day date | Moment timestamp

text \<open>
  \<^verbatim>\<open>series >= other\<close> and \<^verbatim>\<open>series <= other\<close> on a datetime64 column. pandas
  compares the column with a Timestamp, NaT comparing False; it does not compare it
  with a \<^verbatim>\<open>datetime.date\<close> but raises TypeError (invalid comparison between
  datetime64 and date), whatever the column holds.
\<close>

definition compare_dates ::
  "(timestamp \<Rightarrow> timestamp \<Rightarrow> bool) \<Rightarrow> cell list \<Rightarrow> pyvalue \<Rightarrow> exn + bool list" where
  "compare_dates rel series other =
     (case other of
        Day d \<Rightarrow> Inl TypeError
      | Moment t \<Rightarrow> Inr (map (\<lambda>c. case c of Stamp u \<Rightarrow> rel u t | _ \<Rightarrow> False) series))"

text \<open>\<^verbatim>\<open>Series.between(left, right)\<close> is \<^verbatim>\<open>(series >= left) & (series <= right)\<close>.\<close>

definition between :: "cell list \<Rightarrow> pyvalue \<Rightarrow> pyvalue \<Rightarrow> exn + bool list" where
  "between series left right =
     (case compare_dates (\<lambda>u t. t \<le> u) series left of
        Inl e \<Rightarrow> Inl e
      | Inr lmask \<Rightarrow>
          (case compare_dates (\<lambda>u t. u \<le> t) series right of
             Inl e \<Rightarrow> Inl e
           | Inr rmask \<Rightarrow> Inr (map2 (\<and>) lmask rmask)))"

definition isin :: "string list \<Rightarrow> cell \<Rightarrow> bool" where
  "isin vs c = (case c of Str s \<Rightarrow> s \<in> set vs | _ \<Rightarrow> False)"

text \<open>
  Lines 134 to 136. The two ends are the dates of the date picker, so line 135 raises
  and line 136 is not reached.
\<close>

definition apply_filters :: "date \<Rightarrow> date \<Rightarrow> string list \<Rightarrow> frame \<Rightarrow> exn + frame" where
  "apply_filters start end categories df =
     (case between (column df ''_date'') (Day start) (Day end) of
        Inl e \<Rightarrow> Inl e
      | Inr keep \<Rightarrow>
          let filtered = mask_rows df keep
          in Inr (mask_rows filtered (map (isin categories) (column filtered ''_category''))))"

subsection \<open>Figures and groupings (lines 143 to 146, 187, 193, 194)\<close>

text \<open>The numbers of a series; sum, mean and max skip everything else.\<close>

definition numbers :: "cell list \<Rightarrow> real list" where
  "numbers cs = List.map_filter (\<lambda>c. case c of Num a \<Rightarrow> Some a | _ \<Rightarrow> None) cs"

text \<open>
  \<^verbatim>\<open>Series.sum()\<close>: 0 when the series has no number, else the library's sum of
  its numbers (in float64, in the library's order of adding).
\<close>

definition series_sum :: "pandas \<Rightarrow> cell list \<Rightarrow> real" where
  "series_sum lib cs = (if numbers cs = [] then 0 else sum_floats lib (numbers cs))"

text \<open>Mean and max of no number at all are NaN.\<close>

definition series_mean :: "pandas \<Rightarrow> cell list \<Rightarrow> cell" where
  "series_mean lib cs =
     (if numbers cs = [] then NaN else Num (mean_floats lib (numbers cs)))"

definition series_max :: "cell list \<Rightarrow> cell" where
  "series_max cs = (case numbers cs of [] \<Rightarrow> NaN | x # xs \<Rightarrow> Num (fold max xs x))"

text \<open>
  \<^verbatim>\<open>df.groupby(key)[val].sum()\<close>: one entry per text in the key column, in ascending
  order of the keys; a row whose key is missing belongs to no group; a group without
  a number sums to 0, any other to the library's sum of its numbers.
\<close>

definition group_key :: "cell \<Rightarrow> string option" where
  "group_key c = (case c of Str s \<Rightarrow> Some s | _ \<Rightarrow> None)"

definition group_total :: "pandas \<Rightarrow> cell list \<Rightarrow> real" where
  "group_total lib cs = (if numbers cs = [] then 0 else group_sum_floats lib (numbers cs))"

definition group_sum :: "pandas \<Rightarrow> cell list \<Rightarrow> cell list \<Rightarrow> (string \<times> real) list" where
  "group_sum lib keys vals =
     map (\<lambda>k. (k, group_total lib
                    (map snd (filter (\<lambda>p. group_key (fst p) = Some k) (zip keys vals)))))
       (sort (remdups (List.map_filter group_key keys)))"

definition groupby_sum :: "pandas \<Rightarrow> string \<Rightarrow> string \<Rightarrow> frame \<Rightarrow> (string \<times> real) list" where
  "groupby_sum lib key val df = group_sum lib (column df key) (column df val)"

text \<open>
  \<^verbatim>\<open>dt.to_period("M").astype(str)\<close>: year and month as YYYY-MM (a Timestamp's year has
  four digits), NaT as the text NaT.
\<close>

definition digit :: "nat \<Rightarrow> char" where
  "digit n = ''0123456789'' ! (n mod 10)"

definition year_month_str :: "cell \<Rightarrow> cell" where
  "year_month_str c =
     (case c of
        Stamp ((y, m, d), t) \<Rightarrow>
          Str ([digit (y div 1000), digit (y div 100), digit (y div 10), digit y]
               @ ''-'' @ [digit (m div 10), digit m])
      | _ \<Rightarrow> Str ''NaT'')"

subsection \<open>The download (line 204) and reading it again\<close>

text \<open>
  \<^verbatim>\<open>to_csv(index=False)\<close>: the header and one record per row, each cell as text: a
  missing value is the empty field, a string is itself, a number or a Timestamp has
  the library's written form. Joining with commas and newlines, quoting and the UTF-8
  encoding are the library's, in the writer and in the reader; the model keeps the
  records as lists of fields.
\<close>

definition field_text :: "pandas \<Rightarrow> cell \<Rightarrow> string" where
  "field_text lib c =
     (if isna c then '''' else (case c of Str s \<Rightarrow> s | _ \<Rightarrow> csv_field lib c))"

definition to_csv :: "pandas \<Rightarrow> frame \<Rightarrow> string list list" where
  "to_csv lib df =
     columns df # map (\<lambda>r. map (\<lambda>c. field_text lib (cell_at r c)) (columns df)) (rows df)"

text \<open>
  The reader, on the same records: the first is the header, and a field that is one
  of the reader's texts for a missing value reads as NaN. A file without a header
  is an error. What the reader makes of a column of number texts (its type inference)
  is not modelled: a field reads as its text.
\<close>

definition na_values :: "string list" where
  "na_values =
     ['''', ''#N/A'', ''#N/A N/A'', ''#NA'', ''-1.#IND'', ''-1.#QNAN'', ''-NaN'', ''-nan'',
      ''1.#IND'', ''1.#QNAN'', ''<NA>'', ''N/A'', ''NA'', ''NULL'', ''NaN'', ''None'', ''n/a'',
      ''nan'', ''null'']"

definition read_field :: "string \<Rightarrow> cell" where
  "read_field s = (if s \<in> set na_values then NaN else Str s)"

definition read_records :: "string list list \<Rightarrow> exn + frame" where
  "read_records t =
     (case t of
        [] \<Rightarrow> Inl ReadError
      | header # records \<Rightarrow>
          Inr \<lparr>columns = header,
               rows = map (\<lambda>fields. map_of (zip header (map read_field fields))) records\<rparr>)"

text \<open>A cell as the download holds it: missing, or the text written for it.\<close>

definition as_text :: "pandas \<Rightarrow> cell \<Rightarrow> cell" where
  "as_text lib c = (if isna c then NaN else Str (field_text lib c))"

text \<open>
  A cell the reader does not take for missing when it is present: any cell but a string
  that is one of the reader's texts for a missing value. The cells of a table that the
  reader delivered are of this kind.
\<close>

definition clean :: "cell \<Rightarrow> bool" where
  "clean c = (case c of Str s \<Rightarrow> s \<notin> set na_values | _ \<Rightarrow> True)"

subsection \<open>The whole run\<close>

record dashboard =
  total :: real
  avg :: cell
  max_amt :: cell
  tx_count :: nat
  cat_sum :: "(string \<times> real) list"
  trend :: "(string \<times> real) list"
  shown :: frame
  csv_data :: "string list list"

text \<open>Lines 143 to 204, on the filtered frame.\<close>

definition render :: "pandas \<Rightarrow> frame \<Rightarrow> dashboard" where
  "render lib filtered =
     (let amounts = column filtered ''_amount'';
          cs = groupby_sum lib ''_category'' ''_amount'' filtered;
          filtered2 = setitem filtered ''year_month''
                        (map year_month_str (column filtered ''_date''))
      in \<lparr>total = series_sum lib amounts,
          avg = series_mean lib amounts,
          max_amt = series_max amounts,
          tx_count = length (rows filtered),
          cat_sum = cs,
          trend = groupby_sum lib ''year_month'' ''_amount'' filtered2,
          shown = filtered2,
          csv_data = to_csv lib filtered2\<rparr>)"

text \<open>
  The script from the upload on. The widgets' values are arguments: the uploaded file
  (None while nothing is uploaded), the three column choices, the date range (a tuple
  of dates) and the selected categories. An exception the script does not catch ends
  the run.
\<close>

definition run ::
  "pandas \<Rightarrow> (encoding \<Rightarrow> string \<Rightarrow> exn + frame) \<Rightarrow> upload option \<Rightarrow>
   string \<Rightarrow> string \<Rightarrow> string \<Rightarrow> date list \<Rightarrow> string list \<Rightarrow> halt + dashboard" where
  "run lib parse uploaded date_col amount_col category_col date_range categories =
     (case uploaded of
        None \<Rightarrow> Inl NoUpload
      | Some file \<Rightarrow>
          (case safe_read parse file of
             Inl e \<Rightarrow> Inl (Raised e)
           | Inr df \<Rightarrow>
               if empty df then Inl CouldNotRead
               else
                 (case convert_fields lib df date_col amount_col category_col of
                    Inl e \<Rightarrow> Inl (Raised e)
                  | Inr df3 \<Rightarrow>
                      (case date_range of
                         [start, end] \<Rightarrow>
                           (case apply_filters start end categories df3 of
                              Inl e \<Rightarrow> Inl (Raised e)
                            | Inr filtered \<Rightarrow>
                                if empty filtered then Inl NoRecords
                                else Inr (render lib filtered))
                       | _ \<Rightarrow> Inl InvalidDateRange))))"

subsection \<open>A library instance for running scenarios\<close>

text \<open>
  An instance of the library that agrees with pandas on the inputs of the scenarios:
  dates written YYYY-MM-DD, amounts written as unsigned whole numbers, and sums of
  whole numbers (which float64 adds exactly, as long as they stay below 2 to the 53).
  Every other text is no date and no number.
\<close>

definition digit_val :: "char \<Rightarrow> nat option" where
  "digit_val ch =
     (if CHR ''0'' \<le> ch \<and> ch \<le> CHR ''9'' then Some (of_char ch - 48) else None)"

fun nat_of_digits :: "nat \<Rightarrow> string \<Rightarrow> nat option" where
  "nat_of_digits acc [] = Some acc"
| "nat_of_digits acc (ch # s) =
     (case digit_val ch of None \<Rightarrow> None | Some d \<Rightarrow> nat_of_digits (10 * acc + d) s)"

definition parse_nat :: "string \<Rightarrow> nat option" where
  "parse_nat s = (if s = [] then None else nat_of_digits 0 s)"

definition iso_date :: "string \<Rightarrow> timestamp option" where
  "iso_date s =
     (if length s = 10 \<and> s ! 4 = CHR ''-'' \<and> s ! 7 = CHR ''-'' then
        (case (parse_nat (take 4 s), parse_nat (take 2 (drop 5 s)), parse_nat (drop 8 s)) of
           (Some y, Some m, Some d) \<Rightarrow>
             if 1 \<le> m \<and> m \<le> 12 \<and> 1 \<le> d \<and> d \<le> 31 then Some ((y, m, d), 0) else None
         | _ \<Rightarrow> None)
      else None)"

fun show_nat :: "nat \<Rightarrow> string" where
  "show_nat n = (if n < 10 then [digit n] else show_nat (n div 10) @ [digit n])"

declare show_nat.simps [simp del]

text \<open>
  The text of a scalar. The instance's own parsers yield midnights and whole numbers
  only: a Timestamp is written as its day, a number as its whole part with one decimal.
\<close>

definition scalar_text :: "cell \<Rightarrow> string" where
  "scalar_text c =
     (case c of
        NaN \<Rightarrow> ''nan''
      | NaT \<Rightarrow> ''NaT''
      | Str s \<Rightarrow> s
      | Num a \<Rightarrow> show_nat (nat \<lfloor>a\<rfloor>) @ ''.0''
      | Stamp ((y, m, d), t) \<Rightarrow>
          [digit (y div 1000), digit (y div 100), digit (y div 10), digit y] @ ''-'' @
          [digit (m div 10), digit m] @ ''-'' @ [digit (d div 10), digit d])"

definition csv_lib :: pandas where
  "csv_lib =
     \<lparr>to_datetime = map (\<lambda>c. case c of Str s \<Rightarrow> iso_date s | _ \<Rightarrow> None),
      to_numeric = map (\<lambda>s. map_option real (parse_nat s)),
      py_str = scalar_text,
      csv_field = scalar_text,
      sum_floats = sum_list,
      mean_floats = (\<lambda>xs. sum_list xs / real (length xs)),
      group_sum_floats = sum_list\<rparr>"

text \<open>The table of the spec's scenario, as the CSV reader delivers it.\<close>

definition budget_row :: "string \<Rightarrow> string \<Rightarrow> string \<Rightarrow> row" where
  "budget_row d a c = [''date'' \<mapsto> Str d, ''amount'' \<mapsto> Str a, ''category'' \<mapsto> Str c]"

definition budget :: frame where
  "budget =
     \<lparr>columns = [''date'', ''amount'', ''category''],
      rows = [budget_row ''2024-01-05'' ''100'' ''Food'',
              budget_row ''2024-02-10'' ''abc'' ''Food'',
              budget_row ''2024-03-01'' ''50'' ''Rent'']\<rparr>"

text \<open>A table of one row with no date, no number and no category.\<close>

definition sparse :: frame where
  "sparse =
     \<lparr>columns = [''date'', ''amount'', ''category''],
      rows = [[''date'' \<mapsto> Str ''soon'', ''amount'' \<mapsto> Str ''abc'', ''category'' \<mapsto> NaN]]\<rparr>"

text \<open>A reader that finds the scenario's table in every upload.\<close>

definition budget_reader :: "encoding \<Rightarrow> string \<Rightarrow> exn + frame" where
  "budget_reader enc bytes = Inr budget"

text \<open>The scenario's file, and the run of the spec's scenario.\<close>

definition budget_csv :: upload where
  "budget_csv =
     \<lparr>content = ''date,amount,category'' @ [CHR 0x0A] @ ''2024-01-05,100,Food'' @ [CHR 0x0A]
                 @ ''2024-02-10,abc,Food'' @ [CHR 0x0A] @ ''2024-03-01,50,Rent'' @ [CHR 0x0A],
      pos = 0\<rparr>"

definition budget_run :: "halt + dashboard" where
  "budget_run =
     run csv_lib budget_reader (Some budget_csv) ''date'' ''amount'' ''category''
       [(2024, 1, 1), (2024, 3, 31)] [''Food'', ''Rent'']"

text \<open>A reader that fails on every encoding but Latin-1.\<close>

definition latin1_reader :: "encoding \<Rightarrow> string \<Rightarrow> exn + frame" where
  "latin1_reader enc bytes = (if enc = Latin1 then Inr budget else Inl ReadError)"

section \<open>Properties\<close>

subsection \<open>Column assignment\<close>

lemma length_assign_rows: "length (assign_rows rs c vs) = length rs"
  by (induction rs c vs rule: assign_rows.induct) simp_all

lemma nth_assign_rows:
  "i < length rs \<Longrightarrow> assign_rows rs c vs ! i = (rs ! i)(c \<mapsto> aligned vs i)"
proof (induction rs c vs arbitrary: i rule: assign_rows.induct)
  case (1 c vs)
  then show ?case by simp
next
  case (2 r rs c)
  then show ?case by (cases i) (simp_all add: aligned_def del: fun_upd_apply)
next
  case (3 r rs c v vs)
  then show ?case by (cases i) (simp_all add: aligned_def del: fun_upd_apply)
qed

lemma cell_at_upd: "cell_at (r(c \<mapsto> v)) c' = (if c' = c then v else cell_at r c')"
  by (simp add: cell_at_def)

lemma length_rows_setitem: "length (rows (setitem df c vs)) = length (rows df)"
  by (simp add: setitem_def length_assign_rows)

lemma columns_setitem: "columns (setitem df c vs) = add_column (columns df) c"
  by (simp add: setitem_def)

lemma set_add_column: "set (add_column cs c) = insert c (set cs)"
  by (auto simp: add_column_def)

lemma cell_setitem:
  "i < length (rows df) \<Longrightarrow>
   cell_at (rows (setitem df c vs) ! i) c' =
     (if c' = c then aligned vs i else cell_at (rows df ! i) c')"
  by (simp add: setitem_def nth_assign_rows cell_at_upd del: fun_upd_apply)

lemma length_rows_setitem_scalar: "length (rows (setitem_scalar df c v)) = length (rows df)"
  by (simp add: setitem_scalar_def)

lemma columns_setitem_scalar: "columns (setitem_scalar df c v) = add_column (columns df) c"
  by (simp add: setitem_scalar_def)

lemma cell_setitem_scalar:
  "i < length (rows df) \<Longrightarrow>
   cell_at (rows (setitem_scalar df c v) ! i) c' = (if c' = c then v else cell_at (rows df ! i) c')"
  by (simp add: setitem_scalar_def cell_at_upd del: fun_upd_apply)

lemma getitem_Inr: "c \<in> set (columns df) \<Longrightarrow> getitem df c = Inr (column df c)"
  by (simp add: getitem_def)

lemma aligned_column: "i < length (rows df) \<Longrightarrow> aligned (map f (column df c)) i = f (cell_at (rows df ! i) c)"
  by (simp add: aligned_def column_def)

subsection \<open>The conversion steps\<close>

text \<open>Each step succeeds on a column of the frame, keeps the rows and every other column.\<close>

lemma set_date_Inr:
  assumes "date_col \<in> set (columns df)"
  shows "\<exists>df1. set_date lib df date_col = Inr df1
     \<and> columns df1 = add_column (columns df) ''_date''
     \<and> length (rows df1) = length (rows df)
     \<and> (\<forall>i c. i < length (rows df) \<longrightarrow> c \<noteq> ''_date'' \<longrightarrow>
            cell_at (rows df1 ! i) c = cell_at (rows df ! i) c)
     \<and> (\<forall>i. i < length (rows df) \<longrightarrow>
            cell_at (rows df1 ! i) ''_date'' = aligned (parse_dates lib (column df date_col)) i)"
  using assms
  by (simp add: set_date_def getitem_Inr columns_setitem length_rows_setitem cell_setitem)

lemma set_amount_Inr:
  assumes "amount_col \<in> set (columns df)"
  shows "\<exists>df1. set_amount lib df amount_col = Inr df1
     \<and> columns df1 = add_column (columns df) ''_amount''
     \<and> length (rows df1) = length (rows df)
     \<and> (\<forall>i c. i < length (rows df) \<longrightarrow> c \<noteq> ''_amount'' \<longrightarrow>
            cell_at (rows df1 ! i) c = cell_at (rows df ! i) c)
     \<and> (\<forall>i. i < length (rows df) \<longrightarrow>
            cell_at (rows df1 ! i) ''_amount'' = aligned (parse_amounts lib (column df amount_col)) i)"
  using assms
  by (simp add: set_amount_def getitem_Inr columns_setitem length_rows_setitem cell_setitem)

lemma set_category_Inr:
  assumes "category_col \<in> set (columns df) \<or> category_col = ''(none)''"
  shows "\<exists>df1. set_category lib df category_col = Inr df1
     \<and> columns df1 = add_column (columns df) ''_category''
     \<and> length (rows df1) = length (rows df)
     \<and> (\<forall>i c. i < length (rows df) \<longrightarrow> c \<noteq> ''_category'' \<longrightarrow>
            cell_at (rows df1 ! i) c = cell_at (rows df ! i) c)
     \<and> (\<forall>i. i < length (rows df) \<longrightarrow>
            cell_at (rows df1 ! i) ''_category'' =
              (if category_col \<noteq> ''(none)''
               then category_text lib (cell_at (rows df ! i) category_col)
               else Str ''Uncategorized''))"
  using assms
  by (auto simp: set_category_def getitem_Inr columns_setitem length_rows_setitem cell_setitem
      columns_setitem_scalar length_rows_setitem_scalar cell_setitem_scalar aligned_column)

lemma aligned_parse_dates:
  "aligned (parse_dates lib ds) i = NaN \<or> aligned (parse_dates lib ds) i = NaT
   \<or> (\<exists>t. aligned (parse_dates lib ds) i = Stamp t)"
  by (auto simp: aligned_def parse_dates_def date_cell_def split: option.splits)

lemma aligned_parse_amounts:
  "aligned (parse_amounts lib ams) i = NaN \<or> (\<exists>a. aligned (parse_amounts lib ams) i = Num a)"
  by (auto simp: aligned_def parse_amounts_def num_cell_def split: option.splits)

lemma convert_fields_steps:
  assumes "date_col \<in> set (columns df)" and "amount_col \<in> set (columns df)"
    and "category_col \<in> set (columns df) \<or> category_col = ''(none)''"
  obtains df1 :: frame and df2 :: frame and df3 :: frame where
    "convert_fields lib df date_col amount_col category_col = Inr df3"
    "columns df1 = add_column (columns df) ''_date''"
    "columns df2 = add_column (columns df1) ''_amount''"
    "columns df3 = add_column (columns df2) ''_category''"
    "length (rows df1) = length (rows df)"
    "length (rows df2) = length (rows df)"
    "length (rows df3) = length (rows df)"
    "\<And>i c. i < length (rows df) \<Longrightarrow> c \<noteq> ''_date'' \<Longrightarrow>
        cell_at (rows df1 ! i) c = cell_at (rows df ! i) c"
    "\<And>i c. i < length (rows df) \<Longrightarrow> c \<noteq> ''_amount'' \<Longrightarrow>
        cell_at (rows df2 ! i) c = cell_at (rows df1 ! i) c"
    "\<And>i c. i < length (rows df) \<Longrightarrow> c \<noteq> ''_category'' \<Longrightarrow>
        cell_at (rows df3 ! i) c = cell_at (rows df2 ! i) c"
    "\<And>i. i < length (rows df) \<Longrightarrow>
        cell_at (rows df1 ! i) ''_date'' = aligned (parse_dates lib (column df date_col)) i"
    "\<And>i. i < length (rows df) \<Longrightarrow>
        cell_at (rows df2 ! i) ''_amount'' = aligned (parse_amounts lib (column df1 amount_col)) i"
    "\<And>i. i < length (rows df) \<Longrightarrow>
        cell_at (rows df3 ! i) ''_category'' =
          (if category_col \<noteq> ''(none)'' then category_text lib (cell_at (rows df2 ! i) category_col)
           else Str ''Uncategorized'')"
proof -
  from set_date_Inr [OF assms(1), of lib] obtain df1 where
    d1: "set_date lib df date_col = Inr df1"
      "columns df1 = add_column (columns df) ''_date''"
      "length (rows df1) = length (rows df)"
      "\<forall>i c. i < length (rows df) \<longrightarrow> c \<noteq> ''_date'' \<longrightarrow>
            cell_at (rows df1 ! i) c = cell_at (rows df ! i) c"
      "\<forall>i. i < length (rows df) \<longrightarrow>
            cell_at (rows df1 ! i) ''_date'' = aligned (parse_dates lib (column df date_col)) i"
    by (elim exE conjE)
  have "amount_col \<in> set (columns df1)"
    using assms(2) d1(2) by (simp add: set_add_column)
  from set_amount_Inr [OF this, of lib] obtain df2 where
    d2: "set_amount lib df1 amount_col = Inr df2"
      "columns df2 = add_column (columns df1) ''_amount''"
      "length (rows df2) = length (rows df1)"
      "\<forall>i c. i < length (rows df1) \<longrightarrow> c \<noteq> ''_amount'' \<longrightarrow>
            cell_at (rows df2 ! i) c = cell_at (rows df1 ! i) c"
      "\<forall>i. i < length (rows df1) \<longrightarrow>
            cell_at (rows df2 ! i) ''_amount'' = aligned (parse_amounts lib (column df1 amount_col)) i"
    by (elim exE conjE)
  have "category_col \<in> set (columns df2) \<or> category_col = ''(none)''"
    using assms(3) d1(2) d2(2) by (auto simp: set_add_column)
  from set_category_Inr [OF this, of lib] obtain df3 where
    d3: "set_category lib df2 category_col = Inr df3"
      "columns df3 = add_column (columns df2) ''_category''"
      "length (rows df3) = length (rows df2)"
      "\<forall>i c. i < length (rows df2) \<longrightarrow> c \<noteq> ''_category'' \<longrightarrow>
            cell_at (rows df3 ! i) c = cell_at (rows df2 ! i) c"
      "\<forall>i. i < length (rows df2) \<longrightarrow>
            cell_at (rows df3 ! i) ''_category'' =
              (if category_col \<noteq> ''(none)''
               then category_text lib (cell_at (rows df2 ! i) category_col)
               else Str ''Uncategorized'')"
    by (elim exE conjE)
  show ?thesis
  proof (rule that [of df3 df1 df2])
    show "convert_fields lib df date_col amount_col category_col = Inr df3"
      using d1(1) d2(1) d3(1) by (simp add: convert_fields_def)
    show "columns df1 = add_column (columns df) ''_date''" by (rule d1(2))
    show "columns df2 = add_column (columns df1) ''_amount''" by (rule d2(2))
    show "columns df3 = add_column (columns df2) ''_category''" by (rule d3(2))
    show "length (rows df1) = length (rows df)" by (rule d1(3))
    show "length (rows df2) = length (rows df)" using d1(3) d2(3) by simp
    show "length (rows df3) = length (rows df)" using d1(3) d2(3) d3(3) by simp
    show "cell_at (rows df1 ! i) c = cell_at (rows df ! i) c"
      if "i < length (rows df)" "c \<noteq> ''_date''" for i c
      using that d1(4) by simp
    show "cell_at (rows df2 ! i) c = cell_at (rows df1 ! i) c"
      if "i < length (rows df)" "c \<noteq> ''_amount''" for i c
      using that d2(4) d1(3) by simp
    show "cell_at (rows df3 ! i) c = cell_at (rows df2 ! i) c"
      if "i < length (rows df)" "c \<noteq> ''_category''" for i c
      using that d3(4) d1(3) d2(3) by simp
    show "cell_at (rows df1 ! i) ''_date'' = aligned (parse_dates lib (column df date_col)) i"
      if "i < length (rows df)" for i
      using that d1(5) by simp
    show "cell_at (rows df2 ! i) ''_amount'' = aligned (parse_amounts lib (column df1 amount_col)) i"
      if "i < length (rows df)" for i
      using that d2(5) d1(3) by simp
    show "cell_at (rows df3 ! i) ''_category'' =
          (if category_col \<noteq> ''(none)'' then category_text lib (cell_at (rows df2 ! i) category_col)
           else Str ''Uncategorized'')"
      if "i < length (rows df)" for i
      using that d3(5) d1(3) d2(3) by simp
  qed
qed

subsection \<open>The scenario's table under the library instance\<close>

lemma parse_nat_simps:
  "parse_nat ''100'' = Some 100" "parse_nat ''abc'' = None" "parse_nat ''50'' = Some 50"
  by (simp_all add: parse_nat_def digit_val_def)

lemma iso_date_simps:
  "iso_date ''2024-01-05'' = Some ((2024, 1, 5), 0)"
  "iso_date ''2024-02-10'' = Some ((2024, 2, 10), 0)"
  "iso_date ''2024-03-01'' = Some ((2024, 3, 1), 0)"
  by (simp_all add: iso_date_def parse_nat_def digit_val_def)

lemma budget_dates:
  "parse_dates csv_lib (column budget ''date'') =
     [Stamp ((2024, 1, 5), 0), Stamp ((2024, 2, 10), 0), Stamp ((2024, 3, 1), 0)]"
  by (simp add: parse_dates_def csv_lib_def column_def budget_def budget_row_def cell_at_def
      iso_date_simps date_cell_def)

lemma budget_amounts:
  "parse_amounts csv_lib (column budget ''amount'') = [Num 100, NaN, Num 50]"
  by (simp add: parse_amounts_def csv_lib_def column_def budget_def budget_row_def cell_at_def
      parse_nat_simps num_cell_def astype_str_def str_replace_comma_def)

subsection \<open>Conversion keeps every row\<close>

lemma column_cong:
  assumes "length (rows df1) = length (rows df)"
    and "\<And>i. i < length (rows df) \<Longrightarrow> cell_at (rows df1 ! i) c = cell_at (rows df ! i) c"
  shows "column df1 c = column df c"
  using assms by (simp add: column_def list_eq_iff_nth_eq)

text \<open>
  Claim C3. For every table and every choice of the date, amount and category columns
  the selectors offer, the conversion succeeds and its result has exactly the rows of
  the table: the same number, each other column's cells unchanged at the same position,
  and in each row the parsed date and amount of that row, with NaT or NaN where the
  library finds no date or number. No row is dropped.
\<close>

theorem convert_fields_keeps_rows:
  fixes df :: frame
  assumes "date_col \<in> set (columns df)" and "amount_col \<in> set (columns df)"
    and "category_col \<in> set (columns df) \<or> category_col = ''(none)''"
  shows "\<exists>df3. convert_fields lib df date_col amount_col category_col = Inr df3
     \<and> length (rows df3) = length (rows df)
     \<and> (\<forall>i c. i < length (rows df) \<longrightarrow> c \<notin> {''_date'', ''_amount'', ''_category''} \<longrightarrow>
            cell_at (rows df3 ! i) c = cell_at (rows df ! i) c)
     \<and> (\<forall>i. i < length (rows df) \<longrightarrow>
            cell_at (rows df3 ! i) ''_date'' = aligned (parse_dates lib (column df date_col)) i)
     \<and> (\<forall>i. i < length (rows df) \<longrightarrow> amount_col \<noteq> ''_date'' \<longrightarrow>
            cell_at (rows df3 ! i) ''_amount'' = aligned (parse_amounts lib (column df amount_col)) i)"
proof (rule convert_fields_steps [OF assms, of lib])
  fix df1 df2 df3 :: frame
  assume conv: "convert_fields lib df date_col amount_col category_col = Inr df3"
    and len1: "length (rows df1) = length (rows df)"
    and len3: "length (rows df3) = length (rows df)"
    and k1: "\<And>i c. i < length (rows df) \<Longrightarrow> c \<noteq> ''_date'' \<Longrightarrow>
        cell_at (rows df1 ! i) c = cell_at (rows df ! i) c"
    and k2: "\<And>i c. i < length (rows df) \<Longrightarrow> c \<noteq> ''_amount'' \<Longrightarrow>
        cell_at (rows df2 ! i) c = cell_at (rows df1 ! i) c"
    and k3: "\<And>i c. i < length (rows df) \<Longrightarrow> c \<noteq> ''_category'' \<Longrightarrow>
        cell_at (rows df3 ! i) c = cell_at (rows df2 ! i) c"
    and v1: "\<And>i. i < length (rows df) \<Longrightarrow>
        cell_at (rows df1 ! i) ''_date'' = aligned (parse_dates lib (column df date_col)) i"
    and v2: "\<And>i. i < length (rows df) \<Longrightarrow>
        cell_at (rows df2 ! i) ''_amount'' = aligned (parse_amounts lib (column df1 amount_col)) i"
  have same: "column df1 amount_col = column df amount_col" if "amount_col \<noteq> ''_date''"
    by (rule column_cong) (simp_all add: len1 k1 that)
  have a: "cell_at (rows df3 ! i) c = cell_at (rows df ! i) c"
    if "i < length (rows df)" "c \<notin> {''_date'', ''_amount'', ''_category''}" for i c
    using that by (simp add: k1 k2 k3)
  have b: "cell_at (rows df3 ! i) ''_date'' = aligned (parse_dates lib (column df date_col)) i"
    if "i < length (rows df)" for i
    using that by (simp add: k2 k3 v1)
  have c: "cell_at (rows df3 ! i) ''_amount'' = aligned (parse_amounts lib (column df amount_col)) i"
    if "i < length (rows df)" "amount_col \<noteq> ''_date''" for i
    using that by (simp add: k3 v2 same)
  show ?thesis
    using conv len3 a b c by blast
qed

theorem convert_fields_keeps_rows_witness:
  "\<exists>df3. convert_fields csv_lib budget ''date'' ''amount'' ''category'' = Inr df3
     \<and> length (rows df3) = 3
     \<and> cell_at (rows df3 ! 1) ''amount'' = Str ''abc''
     \<and> cell_at (rows df3 ! 1) ''_amount'' = NaN
     \<and> cell_at (rows df3 ! 1) ''_date'' = Stamp ((2024, 2, 10), 0)"
proof -
  have cols: "''date'' \<in> set (columns budget)" "''amount'' \<in> set (columns budget)"
    "''category'' \<in> set (columns budget) \<or> ''category'' = ''(none)''"
    by (simp_all add: budget_def)
  have len: "length (rows budget) = 3" "(1::nat) < 3"
    by (simp_all add: budget_def)
  have raw: "cell_at (rows budget ! 1) ''amount'' = Str ''abc''"
    by (simp add: budget_def budget_row_def cell_at_def)
  from convert_fields_keeps_rows [OF cols, of csv_lib] obtain df3 where
    r: "convert_fields csv_lib budget ''date'' ''amount'' ''category'' = Inr df3"
      "length (rows df3) = length (rows budget)"
      "\<forall>i c. i < length (rows budget) \<longrightarrow> c \<notin> {''_date'', ''_amount'', ''_category''} \<longrightarrow>
            cell_at (rows df3 ! i) c = cell_at (rows budget ! i) c"
      "\<forall>i. i < length (rows budget) \<longrightarrow>
            cell_at (rows df3 ! i) ''_date'' = aligned (parse_dates csv_lib (column budget ''date'')) i"
      "\<forall>i. i < length (rows budget) \<longrightarrow> ''amount'' \<noteq> ''_date'' \<longrightarrow>
            cell_at (rows df3 ! i) ''_amount'' = aligned (parse_amounts csv_lib (column budget ''amount'')) i"
    by (elim exE conjE)
  have "cell_at (rows df3 ! 1) ''amount'' = Str ''abc''"
    using r(3) len raw by simp
  moreover have "cell_at (rows df3 ! 1) ''_amount'' = NaN"
    using r(5) len by (simp add: budget_amounts aligned_def)
  moreover have "cell_at (rows df3 ! 1) ''_date'' = Stamp ((2024, 2, 10), 0)"
    using r(4) len by (simp add: budget_dates aligned_def)
  ultimately show ?thesis
    using r(1) r(2) len(1) by simp
qed

subsection \<open>The category is never empty\<close>

lemma category_text_nonempty:
  assumes "c \<noteq> Str ''''" and "\<forall>a. py_str lib (Num a) \<noteq> ''''"
    and "\<forall>t. py_str lib (Stamp t) \<noteq> ''''"
  shows "\<exists>s. category_text lib c = Str s \<and> s \<noteq> ''''"
  using assms
  by (cases c) (simp_all add: category_text_def fillna_def isna_def astype_str_def
      del: split_paired_All)

lemma category_text_isna: "isna c \<Longrightarrow> category_text lib c = Str ''Uncategorized''"
  by (simp add: category_text_def fillna_def astype_str_def)

lemma cell_at_not_empty:
  "\<forall>c. r c \<noteq> Some (Str '''') \<Longrightarrow> cell_at r c \<noteq> Str ''''"
  by (auto simp: cell_at_def split: option.splits)

lemma aligned_parse_dates_text: "aligned (parse_dates lib ds) i \<noteq> Str s"
  using aligned_parse_dates [of lib ds i] by auto

lemma aligned_parse_amounts_text: "aligned (parse_amounts lib ams) i \<noteq> Str s"
  using aligned_parse_amounts [of lib ams i] by auto

text \<open>
  Claim C5. For every table and column choice, the category of every converted row is
  a non-empty text. With the choice (none) it is the text Uncategorized in every row;
  otherwise a missing cell of the chosen column (the reader delivers an empty or absent
  field as NaN) is replaced by Uncategorized. The table is one the CSV reader delivers,
  which holds no empty string, and the library's text of a number or a Timestamp is
  not empty. When the table itself has a column named _date or _amount and that column
  is the chosen one, the cell tested is the converted one.
\<close>

theorem category_never_empty:
  fixes df :: frame
  assumes "date_col \<in> set (columns df)" and "amount_col \<in> set (columns df)"
    and "category_col \<in> set (columns df) \<or> category_col = ''(none)''"
    and no_empty_text: "\<forall>r \<in> set (rows df). \<forall>c. r c \<noteq> Some (Str '''')"
    and text_of_number: "\<forall>a. py_str lib (Num a) \<noteq> ''''"
    and text_of_timestamp: "\<forall>t. py_str lib (Stamp t) \<noteq> ''''"
  shows "\<exists>df3. convert_fields lib df date_col amount_col category_col = Inr df3
     \<and> length (rows df3) = length (rows df)
     \<and> (\<forall>i. i < length (rows df) \<longrightarrow>
           (\<exists>s. cell_at (rows df3 ! i) ''_category'' = Str s \<and> s \<noteq> ''''
              \<and> (category_col = ''(none)'' \<longrightarrow> s = ''Uncategorized'')
              \<and> (category_col \<notin> {''(none)'', ''_date'', ''_amount''} \<longrightarrow>
                   isna (cell_at (rows df ! i) category_col) \<longrightarrow> s = ''Uncategorized'')))"
proof (rule convert_fields_steps [OF assms(1-3), of lib])
  fix df1 df2 df3 :: frame
  assume conv: "convert_fields lib df date_col amount_col category_col = Inr df3"
    and len3: "length (rows df3) = length (rows df)"
    and k1: "\<And>i c. i < length (rows df) \<Longrightarrow> c \<noteq> ''_date'' \<Longrightarrow>
        cell_at (rows df1 ! i) c = cell_at (rows df ! i) c"
    and k2: "\<And>i c. i < length (rows df) \<Longrightarrow> c \<noteq> ''_amount'' \<Longrightarrow>
        cell_at (rows df2 ! i) c = cell_at (rows df1 ! i) c"
    and v1: "\<And>i. i < length (rows df) \<Longrightarrow>
        cell_at (rows df1 ! i) ''_date'' = aligned (parse_dates lib (column df date_col)) i"
    and v2: "\<And>i. i < length (rows df) \<Longrightarrow>
        cell_at (rows df2 ! i) ''_amount'' = aligned (parse_amounts lib (column df1 amount_col)) i"
    and v3: "\<And>i. i < length (rows df) \<Longrightarrow>
        cell_at (rows df3 ! i) ''_category'' =
          (if category_col \<noteq> ''(none)'' then category_text lib (cell_at (rows df2 ! i) category_col)
           else Str ''Uncategorized'')"
  have each: "\<exists>s. cell_at (rows df3 ! i) ''_category'' = Str s \<and> s \<noteq> ''''
              \<and> (category_col = ''(none)'' \<longrightarrow> s = ''Uncategorized'')
              \<and> (category_col \<notin> {''(none)'', ''_date'', ''_amount''} \<longrightarrow>
                   isna (cell_at (rows df ! i) category_col) \<longrightarrow> s = ''Uncategorized'')"
    if i: "i < length (rows df)" for i
  proof (cases "category_col = ''(none)''")
    case True
    then show ?thesis using v3 [OF i] by simp
  next
    case False
    let ?x = "cell_at (rows df2 ! i) category_col"
    have orig: "cell_at (rows df ! i) category_col \<noteq> Str ''''"
      using no_empty_text i by (intro cell_at_not_empty) simp
    have x: "?x \<noteq> Str ''''"
    proof (cases "category_col = ''_amount''")
      case True
      then show ?thesis using v2 [OF i] by (simp add: aligned_parse_amounts_text)
    next
      case na: False
      show ?thesis
      proof (cases "category_col = ''_date''")
        case True
        then show ?thesis using k2 [OF i na] v1 [OF i] by (simp add: aligned_parse_dates_text)
      next
        case False
        then show ?thesis using k2 [OF i na] k1 [OF i False] orig by simp
      qed
    qed
    from category_text_nonempty [OF x text_of_number text_of_timestamp] obtain s where
      s: "category_text lib ?x = Str s" "s \<noteq> ''''" by blast
    have "s = ''Uncategorized''"
      if "category_col \<notin> {''(none)'', ''_date'', ''_amount''}"
        "isna (cell_at (rows df ! i) category_col)"
    proof -
      have "?x = cell_at (rows df ! i) category_col"
        using that(1) k2 [OF i] k1 [OF i] by simp
      then show ?thesis
        using s(1) category_text_isna [OF that(2), of lib] by simp
    qed
    then show ?thesis
      using False s v3 [OF i] by simp
  qed
  show ?thesis
    using conv len3 each by blast
qed

theorem category_never_empty_witness:
  "\<exists>df3. convert_fields csv_lib sparse ''date'' ''amount'' ''category'' = Inr df3
     \<and> length (rows df3) = 1
     \<and> cell_at (rows df3 ! 0) ''_category'' = Str ''Uncategorized''"
proof -
  have cols: "''date'' \<in> set (columns sparse)" "''amount'' \<in> set (columns sparse)"
    "''category'' \<in> set (columns sparse) \<or> ''category'' = ''(none)''"
    by (simp_all add: sparse_def)
  have cells: "\<forall>r \<in> set (rows sparse). \<forall>c. r c \<noteq> Some (Str '''')"
    by (simp add: sparse_def)
  have num: "\<forall>a. py_str csv_lib (Num a) \<noteq> ''''"
    by (simp add: csv_lib_def scalar_text_def)
  have stamp: "\<forall>t. py_str csv_lib (Stamp t) \<noteq> ''''"
  proof
    fix t :: timestamp
    obtain y m d n where "t = ((y, m, d), n)" by (metis surj_pair)
    then show "py_str csv_lib (Stamp t) \<noteq> []"
      by (simp add: csv_lib_def scalar_text_def)
  qed
  have na: "isna (cell_at (rows sparse ! 0) ''category'')" "length (rows sparse) = 1"
    by (simp_all add: sparse_def cell_at_def isna_def)
  from category_never_empty [OF cols cells num stamp] obtain df3 where
    r: "convert_fields csv_lib sparse ''date'' ''amount'' ''category'' = Inr df3"
      "length (rows df3) = length (rows sparse)"
      "\<forall>i. i < length (rows sparse) \<longrightarrow>
           (\<exists>s. cell_at (rows df3 ! i) ''_category'' = Str s \<and> s \<noteq> ''''
              \<and> (''category'' = ''(none)'' \<longrightarrow> s = ''Uncategorized'')
              \<and> (''category'' \<notin> {''(none)'', ''_date'', ''_amount''} \<longrightarrow>
                   isna (cell_at (rows sparse ! i) ''category'') \<longrightarrow> s = ''Uncategorized''))"
    by (elim exE conjE)
  from r(3) na obtain s where "cell_at (rows df3 ! 0) ''_category'' = Str s"
    "isna (cell_at (rows sparse ! 0) ''category'') \<longrightarrow> s = ''Uncategorized''"
    by fastforce
  with na have "cell_at (rows df3 ! 0) ''_category'' = Str ''Uncategorized''"
    by simp
  then show ?thesis
    using r(1) r(2) na(2) by simp
qed

subsection \<open>Reading with three encodings\<close>

text \<open>
  Claim C6. The reader tries the default encoding, then UTF-8 with signature, then
  Latin-1, each retry from the start of the file. The first attempt that parses is the
  result; the read fails exactly when all three attempts fail, with the error of the
  last.
\<close>

theorem safe_read_order:
  "(\<forall>t. read_csv parse Default file = Inr t \<longrightarrow> safe_read parse file = Inr t)
   \<and> (\<forall>e t. read_csv parse Default file = Inl e \<longrightarrow>
           read_csv parse Utf8Sig (seek 0 file) = Inr t \<longrightarrow> safe_read parse file = Inr t)
   \<and> (\<forall>e e'. read_csv parse Default file = Inl e \<longrightarrow>
           read_csv parse Utf8Sig (seek 0 file) = Inl e' \<longrightarrow>
           safe_read parse file = read_csv parse Latin1 (seek 0 file))
   \<and> (\<forall>e. safe_read parse file = Inl e \<longleftrightarrow>
          (\<exists>e1 e2. read_csv parse Default file = Inl e1
             \<and> read_csv parse Utf8Sig (seek 0 file) = Inl e2
             \<and> read_csv parse Latin1 (seek 0 file) = Inl e))"
  by (auto simp: safe_read_def try_except_def split: sum.splits)

theorem safe_read_order_witness:
  "safe_read latin1_reader \<lparr>content = ''a,b'', pos = 0\<rparr> = Inr budget"
proof -
  let ?f = "\<lparr>content = ''a,b'', pos = 0\<rparr>"
  have 1: "read_csv latin1_reader Default ?f = Inl ReadError"
    and 2: "read_csv latin1_reader Utf8Sig (seek 0 ?f) = Inl ReadError"
    and 3: "read_csv latin1_reader Latin1 (seek 0 ?f) = Inr budget"
    by (simp_all add: read_csv_def latin1_reader_def)
  from safe_read_order [of latin1_reader ?f] 1 2
  have "safe_read latin1_reader ?f = read_csv latin1_reader Latin1 (seek 0 ?f)"
    by blast
  then show ?thesis using 3 by simp
qed

subsection \<open>A date range without two ends\<close>

text \<open>
  Claim C8. In a run that reaches the date picker (a file is uploaded, it reads as a
  table that is not empty, the column choices are among the offered ones), a date
  range that does not have exactly two ends stops the run with the invalid date range
  message: no filtering, figure, grouping or download is computed.
\<close>

theorem invalid_date_range_halts:
  fixes df :: frame
  assumes "safe_read parse file = Inr df" and "\<not> empty df"
    and "date_col \<in> set (columns df)" and "amount_col \<in> set (columns df)"
    and "category_col \<in> set (columns df) \<or> category_col = ''(none)''"
    and "length date_range \<noteq> 2"
  shows "run lib parse (Some file) date_col amount_col category_col date_range categories
           = Inl InvalidDateRange"
proof (rule convert_fields_steps [OF assms(3-5), of lib])
  fix df1 df2 df3 :: frame
  assume conv: "convert_fields lib df date_col amount_col category_col = Inr df3"
  show ?thesis
    using assms(1,2,6) conv
    by (auto simp: run_def split: list.splits)
qed

theorem invalid_date_range_halts_witness:
  "run csv_lib budget_reader (Some \<lparr>content = ''a,b'', pos = 0\<rparr>) ''date'' ''amount'' ''category''
     [(2024, 1, 1)] [''Food'', ''Rent''] = Inl InvalidDateRange"
proof -
  have r: "safe_read budget_reader \<lparr>content = ''a,b'', pos = 0\<rparr> = Inr budget"
    by (simp add: safe_read_def try_except_def read_csv_def budget_reader_def)
  have e: "\<not> empty budget"
    by (simp add: empty_def budget_def)
  have cols: "''date'' \<in> set (columns budget)" "''amount'' \<in> set (columns budget)"
    "''category'' \<in> set (columns budget) \<or> ''category'' = ''(none)''"
    by (simp_all add: budget_def)
  have l: "length [(2024::nat, 1::nat, 1::nat)] \<noteq> 2" by simp
  show ?thesis
    by (rule invalid_date_range_halts [OF r e cols l])
qed

subsection \<open>The default date range\<close>

lemma set_map_filter_Some:
  "set (List.map_filter f xs) = {t. \<exists>x \<in> set xs. f x = Some t}"
  by (induction xs) (auto simp: map_filter_simps split: option.splits)

lemma stamp_case_Some:
  "((case c of Stamp t \<Rightarrow> Some t | _ \<Rightarrow> None) = Some u) = (c = Stamp u)"
  by (cases c) simp_all

lemma set_stamps:
  "set (stamps df c) = {t. \<exists>r \<in> set (rows df). cell_at r c = Stamp t}"
  by (simp only: stamps_def set_map_filter_Some stamp_case_Some)

lemma date_min_Min:
  assumes "ts \<noteq> []"
  shows "date_min ts = Stamp (Min (set ts))"
proof (cases ts)
  case Nil
  then show ?thesis using assms by simp
next
  case (Cons t ts')
  have "fold min ts' t = Min (set (t # ts'))"
    by (simp only: Min.set_eq_fold)
  then show ?thesis using Cons by simp
qed

lemma date_max_Max:
  assumes "ts \<noteq> []"
  shows "date_max ts = Stamp (Max (set ts))"
proof (cases ts)
  case Nil
  then show ?thesis using assms by simp
next
  case (Cons t ts')
  have "fold max ts' t = Max (set (t # ts'))"
    by (simp only: Max.set_eq_fold)
  then show ?thesis using Cons by simp
qed

text \<open>
  Claim C9. When no row of the converted table has a date (every date cell is NaT),
  the range offered to the date picker is January 1st of today's year through today;
  otherwise it is the least through the greatest date of the table.
\<close>

theorem default_range_cases:
  fixes df :: frame
  shows "((\<forall>r \<in> set (rows df). \<forall>t. cell_at r ''_date'' \<noteq> Stamp t) \<longrightarrow>
            default_range today df = (Of_date (fst today, 1, 1), Of_date today))
       \<and> ((\<exists>r \<in> set (rows df). \<exists>t. cell_at r ''_date'' = Stamp t) \<longrightarrow>
            default_range today df =
              (Of_table (Stamp (Min {t. \<exists>r \<in> set (rows df). cell_at r ''_date'' = Stamp t})),
               Of_table (Stamp (Max {t. \<exists>r \<in> set (rows df). cell_at r ''_date'' = Stamp t}))))"
proof (intro conjI impI)
  assume "\<forall>r \<in> set (rows df). \<forall>t. cell_at r ''_date'' \<noteq> Stamp t"
  then have "set (stamps df ''_date'') = {}"
    by (simp add: set_stamps)
  then have "stamps df ''_date'' = []"
    by simp
  then show "default_range today df = (Of_date (fst today, 1, 1), Of_date today)"
    by (simp add: default_range_def isna_def first_of_year_def split: prod.splits)
next
  assume "\<exists>r \<in> set (rows df). \<exists>t. cell_at r ''_date'' = Stamp t"
  then have "set (stamps df ''_date'') \<noteq> {}"
    unfolding set_stamps by blast
  then have ne: "stamps df ''_date'' \<noteq> []"
    by auto
  show "default_range today df =
      (Of_table (Stamp (Min {t. \<exists>r \<in> set (rows df). cell_at r ''_date'' = Stamp t})),
       Of_table (Stamp (Max {t. \<exists>r \<in> set (rows df). cell_at r ''_date'' = Stamp t})))"
    using ne
    by (simp add: default_range_def date_min_Min date_max_Max isna_def set_stamps [symmetric])
qed

theorem default_range_cases_witness:
  "default_range (2026, 11, 3) sparse = (Of_date (2026, 1, 1), Of_date (2026, 11, 3))"
proof -
  have "\<forall>r \<in> set (rows sparse). \<forall>t. cell_at r ''_date'' \<noteq> Stamp t"
    by (simp add: sparse_def cell_at_def)
  with default_range_cases [of sparse "(2026, 11, 3)"] show ?thesis
    by simp
qed

subsection \<open>Figures of rows without amounts\<close>

lemma numbers_none:
  "\<forall>c \<in> set cs. c = NaN \<Longrightarrow> numbers cs = []"
  by (induction cs) (simp_all add: numbers_def)

text \<open>
  Claim C10. For a filtered frame that has rows, all of them with the amount NaN, the
  total is exactly 0, the average and the maximum are NaN, and the count is the number
  of filtered rows.
\<close>

theorem invalid_amounts_figures:
  fixes filtered :: frame
  assumes "rows filtered \<noteq> []"
    and "\<forall>r \<in> set (rows filtered). cell_at r ''_amount'' = NaN"
  shows "total (render lib filtered) = 0
       \<and> avg (render lib filtered) = NaN
       \<and> max_amt (render lib filtered) = NaN
       \<and> tx_count (render lib filtered) = length (rows filtered)
       \<and> 0 < tx_count (render lib filtered)"
proof -
  have "\<forall>c \<in> set (column filtered ''_amount''). c = NaN"
    using assms(2) by (simp add: column_def)
  then have "numbers (column filtered ''_amount'') = []"
    by (rule numbers_none)
  then show ?thesis
    using assms(1)
    by (simp add: render_def Let_def series_sum_def series_mean_def series_max_def)
qed

theorem invalid_amounts_figures_witness:
  "total (render csv_lib sparse) = 0 \<and> avg (render csv_lib sparse) = NaN
   \<and> max_amt (render csv_lib sparse) = NaN \<and> tx_count (render csv_lib sparse) = 1"
proof -
  have a: "rows sparse \<noteq> []" and b: "\<forall>r \<in> set (rows sparse). cell_at r ''_amount'' = NaN"
    and c: "length (rows sparse) = 1"
    by (simp_all add: sparse_def cell_at_def)
  from invalid_amounts_figures [OF a b, of csv_lib] c show ?thesis
    by simp
qed

subsection \<open>The filter raises\<close>

lemma between_dates: "between series (Day start) (Day end) = Inl TypeError"
  by (simp add: between_def compare_dates_def)

text \<open>
  Claim C2 says that the filter keeps, in their order, the rows whose date lies between
  the two ends and whose category is selected. The script does not get that far: line
  135 compares the Timestamp column with the two \<^verbatim>\<open>datetime.date\<close> values of the
  date picker, and for every frame, every range and every selection the comparison
  raises TypeError. No row is filtered.
\<close>

theorem apply_filters_raises:
  "apply_filters start end categories df = Inl TypeError"
  by (simp add: apply_filters_def between_dates)

lemma run_raises:
  fixes df :: frame
  assumes "safe_read parse fl = Inr df" and "\<not> empty df"
    and "convert_fields lib df date_col amount_col category_col = Inr df3"
  shows "run lib parse (Some fl) date_col amount_col category_col [start, end] categories
           = Inl (Raised TypeError)"
  using assms
  by (simp add: run_def apply_filters_def between_dates)

subsection \<open>The scenario of the spec\<close>

lemma column3:
  fixes df :: frame
  assumes "length (rows df) = 3"
  shows "column df c = [cell_at (rows df ! 0) c, cell_at (rows df ! 1) c, cell_at (rows df ! 2) c]"
proof -
  obtain a b d where "rows df = [a, b, d]"
    using assms by (auto simp: length_Suc_conv numeral_3_eq_3)
  then show ?thesis by (simp add: column_def)
qed

lemma column_setitem_same:
  "length vs = length (rows df) \<Longrightarrow> column (setitem df c vs) c = vs"
  by (simp add: column_def list_eq_iff_nth_eq length_rows_setitem cell_setitem aligned_def)

lemma column_setitem_other:
  assumes "c' \<noteq> c"
  shows "column (setitem df c vs) c' = column df c'"
  by (rule column_cong) (simp_all add: length_rows_setitem cell_setitem assms)

lemma budget_columns:
  "column budget ''date'' = [Str ''2024-01-05'', Str ''2024-02-10'', Str ''2024-03-01'']"
  "column budget ''amount'' = [Str ''100'', Str ''abc'', Str ''50'']"
  "column budget ''category'' = [Str ''Food'', Str ''Food'', Str ''Rent'']"
  by (simp_all add: column_def budget_def budget_row_def cell_at_def)

lemma budget_converted:
  assumes dt: "to_datetime lib [Str ''2024-01-05'', Str ''2024-02-10'', Str ''2024-03-01''] =
        [Some ((2024, 1, 5), 0), Some ((2024, 2, 10), 0), Some ((2024, 3, 1), 0)]"
    and nm: "to_numeric lib [''100'', ''abc'', ''50''] = [Some 100, None, Some 50]"
  shows "\<exists>df3. convert_fields lib budget ''date'' ''amount'' ''category'' = Inr df3
     \<and> columns df3 = [''date'', ''amount'', ''category'', ''_date'', ''_amount'', ''_category'']
     \<and> length (rows df3) = 3
     \<and> column df3 ''_date'' =
          [Stamp ((2024, 1, 5), 0), Stamp ((2024, 2, 10), 0), Stamp ((2024, 3, 1), 0)]
     \<and> column df3 ''_amount'' = [Num 100, NaN, Num 50]
     \<and> column df3 ''_category'' = [Str ''Food'', Str ''Food'', Str ''Rent'']"
proof -
  have cols: "''date'' \<in> set (columns budget)" "''amount'' \<in> set (columns budget)"
    "''category'' \<in> set (columns budget) \<or> ''category'' = ''(none)''"
    by (simp_all add: budget_def)
  have len: "length (rows budget) = 3"
    by (simp add: budget_def)
  show ?thesis
  proof (rule convert_fields_steps [OF cols, of lib])
    fix df1 df2 df3 :: frame
    assume conv: "convert_fields lib budget ''date'' ''amount'' ''category'' = Inr df3"
      and c1: "columns df1 = add_column (columns budget) ''_date''"
      and c2: "columns df2 = add_column (columns df1) ''_amount''"
      and c3: "columns df3 = add_column (columns df2) ''_category''"
      and l1: "length (rows df1) = length (rows budget)"
      and l2: "length (rows df2) = length (rows budget)"
      and l3: "length (rows df3) = length (rows budget)"
      and k1: "\<And>i c. i < length (rows budget) \<Longrightarrow> c \<noteq> ''_date'' \<Longrightarrow>
          cell_at (rows df1 ! i) c = cell_at (rows budget ! i) c"
      and k2: "\<And>i c. i < length (rows budget) \<Longrightarrow> c \<noteq> ''_amount'' \<Longrightarrow>
          cell_at (rows df2 ! i) c = cell_at (rows df1 ! i) c"
      and k3: "\<And>i c. i < length (rows budget) \<Longrightarrow> c \<noteq> ''_category'' \<Longrightarrow>
          cell_at (rows df3 ! i) c = cell_at (rows df2 ! i) c"
      and v1: "\<And>i. i < length (rows budget) \<Longrightarrow>
          cell_at (rows df1 ! i) ''_date'' = aligned (parse_dates lib (column budget ''date'')) i"
      and v2: "\<And>i. i < length (rows budget) \<Longrightarrow>
          cell_at (rows df2 ! i) ''_amount'' = aligned (parse_amounts lib (column df1 ''amount'')) i"
      and v3: "\<And>i. i < length (rows budget) \<Longrightarrow>
          cell_at (rows df3 ! i) ''_category'' =
            (if ''category'' \<noteq> ''(none)''
             then category_text lib (cell_at (rows df2 ! i) ''category'')
             else Str ''Uncategorized'')"
    have pd: "parse_dates lib (column budget ''date'') =
        [Stamp ((2024, 1, 5), 0), Stamp ((2024, 2, 10), 0), Stamp ((2024, 3, 1), 0)]"
      by (simp add: parse_dates_def budget_columns dt date_cell_def)
    have "column df1 ''amount'' = column budget ''amount''"
      by (rule column_cong) (simp_all add: l1 k1)
    then have pa: "parse_amounts lib (column df1 ''amount'') = [Num 100, NaN, Num 50]"
      by (simp add: parse_amounts_def budget_columns astype_str_def str_replace_comma_def nm
          num_cell_def)
    have cat: "cell_at (rows df3 ! i) ''_category'' = cell_at (rows budget ! i) ''category''"
      if "i < 3" for i
    proof -
      have i: "i < length (rows budget)" using that len by simp
      have "cell_at (rows df2 ! i) ''category'' = cell_at (rows budget ! i) ''category''"
        using k2 [OF i] k1 [OF i] by simp
      moreover have "\<exists>s. cell_at (rows budget ! i) ''category'' = Str s"
        using that
        by (auto simp: budget_def budget_row_def cell_at_def less_Suc_eq numeral_3_eq_3)
      ultimately show ?thesis
        using v3 [OF i] by (auto simp: category_text_def fillna_def isna_def astype_str_def)
    qed
    have date: "cell_at (rows df3 ! i) ''_date'' = aligned (parse_dates lib (column budget ''date'')) i"
      if "i < 3" for i
      using that len k3 [of i "''_date''"] k2 [of i "''_date''"] v1 [of i] by simp
    have amt: "cell_at (rows df3 ! i) ''_amount'' = aligned (parse_amounts lib (column df1 ''amount'')) i"
      if "i < 3" for i
      using that len k3 [of i "''_amount''"] v2 [of i] by simp
    have len3: "length (rows df3) = 3"
      using l3 len by simp
    have "columns df3 = [''date'', ''amount'', ''category'', ''_date'', ''_amount'', ''_category'']"
      by (simp add: c1 c2 c3 add_column_def budget_def)
    moreover have "column df3 ''_date'' =
        [Stamp ((2024, 1, 5), 0), Stamp ((2024, 2, 10), 0), Stamp ((2024, 3, 1), 0)]"
      by (simp add: column3 [OF len3] date pd aligned_def)
    moreover have "column df3 ''_amount'' = [Num 100, NaN, Num 50]"
      by (simp add: column3 [OF len3] amt pa aligned_def)
    moreover have "column df3 ''_category'' = [Str ''Food'', Str ''Food'', Str ''Rent'']"
      using budget_columns(3) by (simp add: column3 [OF len3] column3 [OF len] cat)
    ultimately show ?thesis
      using conv len3 by blast
  qed
qed

lemma csv_lib_dates:
  "to_datetime csv_lib [Str ''2024-01-05'', Str ''2024-02-10'', Str ''2024-03-01''] =
        [Some ((2024, 1, 5), 0), Some ((2024, 2, 10), 0), Some ((2024, 3, 1), 0)]"
  by (simp add: csv_lib_def iso_date_simps)

lemma csv_lib_numbers:
  "to_numeric csv_lib [''100'', ''abc'', ''50''] = [Some 100, None, Some 50]"
  by (simp add: csv_lib_def parse_nat_simps)

lemma budget_reader_reads: "safe_read budget_reader budget_csv = Inr budget"
  by (simp add: safe_read_def try_except_def read_csv_def budget_reader_def)

lemma csv_lib_sums:
  "sum_floats csv_lib [100, 50] = 150"
  "group_sum_floats csv_lib [100] = 100"
  "group_sum_floats csv_lib [50] = 50"
  by (simp_all add: csv_lib_def)

lemma budget_rendered:
  fixes df3 :: frame
  assumes "columns df3 = [''date'', ''amount'', ''category'', ''_date'', ''_amount'', ''_category'']"
    and len: "length (rows df3) = 3"
    and d: "column df3 ''_date'' =
          [Stamp ((2024, 1, 5), 0), Stamp ((2024, 2, 10), 0), Stamp ((2024, 3, 1), 0)]"
    and a: "column df3 ''_amount'' = [Num 100, NaN, Num 50]"
    and c: "column df3 ''_category'' = [Str ''Food'', Str ''Food'', Str ''Rent'']"
    and s: "sum_floats lib [100, 50] = 150"
    and g1: "group_sum_floats lib [100] = 100"
    and g2: "group_sum_floats lib [50] = 50"
  shows "tx_count (render lib df3) = 3"
    and "total (render lib df3) = 150"
    and "cat_sum (render lib df3) = [(''Food'', 100), (''Rent'', 50)]"
    and "trend (render lib df3) = [(''2024-01'', 100), (''2024-02'', 0), (''2024-03'', 50)]"
    and "hd (csv_data (render lib df3)) =
           [''date'', ''amount'', ''category'', ''_date'', ''_amount'', ''_category'', ''year_month'']"
proof -
  have n: "numbers [Num 100, NaN, Num 50] = [100, 50]"
    "numbers [Num 100, NaN] = [100]" "numbers [Num 100] = [100]" "numbers [NaN] = []"
    "numbers [Num 50] = [50]"
    by (simp_all add: numbers_def)
  show "tx_count (render lib df3) = 3"
    by (simp add: render_def Let_def len)
  show "total (render lib df3) = 150"
    by (simp add: render_def Let_def a series_sum_def n s)
  show "cat_sum (render lib df3) = [(''Food'', 100), (''Rent'', 50)]"
    by (simp add: render_def Let_def groupby_sum_def a c group_sum_def group_key_def
        group_total_def n g1 g2)
  have ym: "map year_month_str (column df3 ''_date'') =
      [Str ''2024-01'', Str ''2024-02'', Str ''2024-03'']"
    by (simp add: d year_month_str_def digit_def)
  have k: "column (setitem df3 ''year_month'' (map year_month_str (column df3 ''_date''))) ''year_month''
      = [Str ''2024-01'', Str ''2024-02'', Str ''2024-03'']"
    using ym by (simp add: column_setitem_same len)
  have v: "column (setitem df3 ''year_month'' (map year_month_str (column df3 ''_date''))) ''_amount''
      = [Num 100, NaN, Num 50]"
    by (simp add: column_setitem_other a)
  show "trend (render lib df3) = [(''2024-01'', 100), (''2024-02'', 0), (''2024-03'', 50)]"
    by (simp add: render_def Let_def groupby_sum_def k v group_sum_def group_key_def
        group_total_def n g1 g2)
  show "hd (csv_data (render lib df3)) =
      [''date'', ''amount'', ''category'', ''_date'', ''_amount'', ''_category'', ''year_month'']"
    by (simp add: render_def Let_def to_csv_def columns_setitem add_column_def assms(1))
qed

lemma budget_run_raises: "budget_run = Inl (Raised TypeError)"
proof -
  from budget_converted [OF csv_lib_dates csv_lib_numbers] obtain df3 :: frame where
    conv: "convert_fields csv_lib budget ''date'' ''amount'' ''category'' = Inr df3"
    by (elim exE conjE)
  have ne: "\<not> empty budget"
    by (simp add: empty_def budget_def)
  show ?thesis
    unfolding budget_run_def by (rule run_raises [OF budget_reader_reads ne conv])
qed

text \<open>
  Claim C1, as amended. For the three rows (2024-01-05, 100, Food), (2024-02-10, abc,
  Food), (2024-03-01, 50, Rent), with any library that reads these three dates, reads
  100 and 50 as numbers and abc as none, and adds 100 and 50 to 150: the three
  converted rows have the dates 2024-01-05, 2024-02-10 and 2024-03-01 (all within
  2024-01-01 to 2024-03-31) and the categories Food, Food, Rent, and the figures of
  lines 143 to 194 over these three rows are: 3 transactions, the total 150, the
  category sums Food 100 and Rent 50, and the monthly sums 2024-01: 100, 2024-02: 0,
  2024-03: 50. The row without an amount counts as a transaction, adds nothing to the
  total, and its month is a key of the monthly sums, with the sum 0. Whether a run
  reaches these lines is not part of the statement.
\<close>

theorem budget_scenario:
  assumes dt: "to_datetime lib [Str ''2024-01-05'', Str ''2024-02-10'', Str ''2024-03-01''] =
        [Some ((2024, 1, 5), 0), Some ((2024, 2, 10), 0), Some ((2024, 3, 1), 0)]"
    and nm: "to_numeric lib [''100'', ''abc'', ''50''] = [Some 100, None, Some 50]"
    and s: "sum_floats lib [100, 50] = 150"
    and g1: "group_sum_floats lib [100] = 100"
    and g2: "group_sum_floats lib [50] = 50"
  shows "\<exists>df3. convert_fields lib budget ''date'' ''amount'' ''category'' = Inr df3
     \<and> column df3 ''_date'' =
          [Stamp ((2024, 1, 5), 0), Stamp ((2024, 2, 10), 0), Stamp ((2024, 3, 1), 0)]
     \<and> column df3 ''_category'' = [Str ''Food'', Str ''Food'', Str ''Rent'']
     \<and> tx_count (render lib df3) = 3
     \<and> total (render lib df3) = 150
     \<and> cat_sum (render lib df3) = [(''Food'', 100), (''Rent'', 50)]
     \<and> trend (render lib df3) = [(''2024-01'', 100), (''2024-02'', 0), (''2024-03'', 50)]"
proof -
  from budget_converted [OF dt nm] obtain df3 :: frame where
    conv: "convert_fields lib budget ''date'' ''amount'' ''category'' = Inr df3"
    and f: "columns df3 = [''date'', ''amount'', ''category'', ''_date'', ''_amount'', ''_category'']"
      "length (rows df3) = 3"
      "column df3 ''_date'' =
          [Stamp ((2024, 1, 5), 0), Stamp ((2024, 2, 10), 0), Stamp ((2024, 3, 1), 0)]"
      "column df3 ''_amount'' = [Num 100, NaN, Num 50]"
      "column df3 ''_category'' = [Str ''Food'', Str ''Food'', Str ''Rent'']"
    by (elim exE conjE)
  from conv f(3,5) budget_rendered(1-4) [OF f s g1 g2] show ?thesis
    by (intro exI [of _ df3] conjI) assumption+
qed

theorem budget_scenario_witness:
  "\<exists>df3. convert_fields csv_lib budget ''date'' ''amount'' ''category'' = Inr df3
     \<and> tx_count (render csv_lib df3) = 3
     \<and> total (render csv_lib df3) = 150
     \<and> cat_sum (render csv_lib df3) = [(''Food'', 100), (''Rent'', 50)]
     \<and> trend (render csv_lib df3) = [(''2024-01'', 100), (''2024-02'', 0), (''2024-03'', 50)]"
  using budget_scenario [OF csv_lib_dates csv_lib_numbers csv_lib_sums]
  by blast

text \<open>
  Claim C1 as stated says that the pipeline produces these figures, with the monthly
  keys 2024-01 and 2024-03 and no other. The run of the scenario ends at line 135 with
  TypeError; and over the scenario's three rows the monthly sums have the key 2024-02
  as well, with the sum 0, since a group without a number sums to 0.
\<close>

theorem budget_scenario_counterexample:
  "budget_run = Inl (Raised TypeError)
   \<and> map_sum id trend budget_run \<noteq> Inr [(''2024-01'', 100), (''2024-03'', 50)]
   \<and> map_sum id (trend \<circ> render csv_lib)
        (convert_fields csv_lib budget ''date'' ''amount'' ''category'')
      = Inr [(''2024-01'', 100), (''2024-02'', 0), (''2024-03'', 50)]"
proof -
  from budget_converted [OF csv_lib_dates csv_lib_numbers] obtain df3 :: frame where
    conv: "convert_fields csv_lib budget ''date'' ''amount'' ''category'' = Inr df3"
    and f: "columns df3 = [''date'', ''amount'', ''category'', ''_date'', ''_amount'', ''_category'']"
      "length (rows df3) = 3"
      "column df3 ''_date'' =
          [Stamp ((2024, 1, 5), 0), Stamp ((2024, 2, 10), 0), Stamp ((2024, 3, 1), 0)]"
      "column df3 ''_amount'' = [Num 100, NaN, Num 50]"
      "column df3 ''_category'' = [Str ''Food'', Str ''Food'', Str ''Rent'']"
    by (elim exE conjE)
  show ?thesis
    using budget_rendered(4) [OF f csv_lib_sums] by (simp add: budget_run_raises conv)
qed

subsection \<open>The download and reading it again\<close>

lemma columns_convert_fields:
  assumes "convert_fields lib df date_col amount_col category_col = Inr df3"
  shows "columns df3 =
    add_column (add_column (add_column (columns df) ''_date'') ''_amount'') ''_category''"
  using assms
  by (auto simp: convert_fields_def set_date_def set_amount_def set_category_def
      columns_setitem columns_setitem_scalar split: sum.splits if_splits)

lemma prefix_add_column: "prefix cs (add_column cs c)"
  by (simp add: add_column_def)

lemma columns_mask_rows: "columns (mask_rows df keep) = columns df"
  by (simp add: mask_rows_def)

lemma rows_mask_rows_subset: "set (rows (mask_rows df keep)) \<subseteq> set (rows df)"
  by (auto simp: mask_rows_def dest: set_zip_rightD)

lemma year_month_not_na: "\<exists>s. year_month_str c = Str s \<and> s \<notin> set na_values"
  by (cases c) (auto simp: year_month_str_def na_values_def split: prod.splits)

lemma uncategorized_not_na: "''Uncategorized'' \<notin> set na_values"
  by (simp add: na_values_def)

lemma read_written:
  assumes "clean x"
    and "\<forall>a. csv_field lib (Num a) \<notin> set na_values"
    and "\<forall>t. csv_field lib (Stamp t) \<notin> set na_values"
  shows "read_field (field_text lib x) = as_text lib x"
proof (cases x)
  case NaN
  then show ?thesis by (simp add: read_field_def field_text_def as_text_def isna_def na_values_def)
next
  case NaT
  then show ?thesis by (simp add: read_field_def field_text_def as_text_def isna_def na_values_def)
next
  case (Str s)
  then show ?thesis using assms(1)
    by (simp add: read_field_def field_text_def as_text_def isna_def clean_def)
next
  case (Num a)
  then show ?thesis using assms(2)
    by (simp add: read_field_def field_text_def as_text_def isna_def)
next
  case (Stamp t)
  then show ?thesis using assms(3) [rule_format, of t]
    by (simp add: read_field_def field_text_def as_text_def isna_def)
qed

lemma clean_category_text:
  assumes "clean x"
    and "\<forall>a. py_str lib (Num a) \<notin> set na_values"
    and "\<forall>t. py_str lib (Stamp t) \<notin> set na_values"
  shows "clean (category_text lib x)"
proof (cases x)
  case (Stamp t)
  then show ?thesis using assms(3) [rule_format, of t]
    by (simp add: category_text_def fillna_def isna_def astype_str_def clean_def)
qed (use assms in \<open>simp_all add: category_text_def fillna_def isna_def astype_str_def clean_def
      uncategorized_not_na\<close>)

lemma clean_aligned_dates: "clean (aligned (parse_dates lib ds) i)"
  using aligned_parse_dates [of lib ds i] by (auto simp: clean_def)

lemma clean_aligned_amounts: "clean (aligned (parse_amounts lib ams) i)"
  using aligned_parse_amounts [of lib ams i] by (auto simp: clean_def)

lemma clean_cell_at:
  "\<forall>c s. r c = Some (Str s) \<longrightarrow> s \<notin> set na_values \<Longrightarrow> clean (cell_at r c)"
  by (auto simp: clean_def cell_at_def split: option.splits cell.splits)

lemma to_csv_read:
  "\<exists>reread. read_records (to_csv lib f) = Inr reread
     \<and> columns reread = columns f
     \<and> length (rows reread) = length (rows f)
     \<and> (\<forall>i c. i < length (rows f) \<longrightarrow> c \<in> set (columns f) \<longrightarrow>
           cell_at (rows reread ! i) c = read_field (field_text lib (cell_at (rows f ! i) c)))"
  by (simp add: read_records_def to_csv_def map_of_zip_map cell_at_def comp_def)


lemma to_csv_shape:
  "hd (to_csv lib df) = columns df"
  "length (to_csv lib df) = Suc (length (rows df))"
  "i < length (rows df) \<Longrightarrow>
     tl (to_csv lib df) ! i = map (\<lambda>c. field_text lib (cell_at (rows df ! i) c)) (columns df)"
  by (simp_all add: to_csv_def)

lemma converted_clean:
  fixes df :: frame
  assumes "date_col \<in> set (columns df)" and "amount_col \<in> set (columns df)"
    and "category_col \<in> set (columns df) \<or> category_col = ''(none)''"
    and tbl: "\<forall>r \<in> set (rows df). \<forall>c. clean (cell_at r c)"
    and p1: "\<forall>a. py_str lib (Num a) \<notin> set na_values"
    and p2: "\<forall>t. py_str lib (Stamp t) \<notin> set na_values"
  shows "\<exists>df3. convert_fields lib df date_col amount_col category_col = Inr df3
     \<and> (\<forall>r \<in> set (rows df3). \<forall>c. clean (cell_at r c))"
proof (rule convert_fields_steps [OF assms(1-3), of lib])
  fix df1 df2 df3 :: frame
  assume conv: "convert_fields lib df date_col amount_col category_col = Inr df3"
    and len3: "length (rows df3) = length (rows df)"
    and k1: "\<And>i c. i < length (rows df) \<Longrightarrow> c \<noteq> ''_date'' \<Longrightarrow>
        cell_at (rows df1 ! i) c = cell_at (rows df ! i) c"
    and k2: "\<And>i c. i < length (rows df) \<Longrightarrow> c \<noteq> ''_amount'' \<Longrightarrow>
        cell_at (rows df2 ! i) c = cell_at (rows df1 ! i) c"
    and k3: "\<And>i c. i < length (rows df) \<Longrightarrow> c \<noteq> ''_category'' \<Longrightarrow>
        cell_at (rows df3 ! i) c = cell_at (rows df2 ! i) c"
    and v1: "\<And>i. i < length (rows df) \<Longrightarrow>
        cell_at (rows df1 ! i) ''_date'' = aligned (parse_dates lib (column df date_col)) i"
    and v2: "\<And>i. i < length (rows df) \<Longrightarrow>
        cell_at (rows df2 ! i) ''_amount'' = aligned (parse_amounts lib (column df1 amount_col)) i"
    and v3: "\<And>i. i < length (rows df) \<Longrightarrow>
        cell_at (rows df3 ! i) ''_category'' =
          (if category_col \<noteq> ''(none)'' then category_text lib (cell_at (rows df2 ! i) category_col)
           else Str ''Uncategorized'')"
  have c0: "clean (cell_at (rows df ! i) c)" if "i < length (rows df)" for i c
    using tbl that by simp
  have c1: "clean (cell_at (rows df1 ! i) c)" if i: "i < length (rows df)" for i c
  proof (cases "c = ''_date''")
    case True
    then show ?thesis using v1 [OF i] by (simp add: clean_aligned_dates)
  next
    case False
    then show ?thesis using k1 [OF i False] c0 [OF i] by simp
  qed
  have c2: "clean (cell_at (rows df2 ! i) c)" if i: "i < length (rows df)" for i c
  proof (cases "c = ''_amount''")
    case True
    then show ?thesis using v2 [OF i] by (simp add: clean_aligned_amounts)
  next
    case False
    then show ?thesis using k2 [OF i False] c1 [OF i] by simp
  qed
  have c3: "clean (cell_at (rows df3 ! i) c)" if i: "i < length (rows df)" for i c
  proof (cases "c = ''_category''")
    case True
    show ?thesis
    proof (cases "category_col = ''(none)''")
      case none: True
      then show ?thesis using v3 [OF i] True
        by (simp add: clean_def uncategorized_not_na)
    next
      case False
      have "clean (category_text lib (cell_at (rows df2 ! i) category_col))"
        by (rule clean_category_text [OF c2 [OF i] p1 p2])
      then show ?thesis using v3 [OF i] True False by simp
    qed
  next
    case False
    then show ?thesis using k3 [OF i False] c2 [OF i] by simp
  qed
  have "\<forall>r \<in> set (rows df3). \<forall>c. clean (cell_at r c)"
  proof (intro ballI allI)
    fix r c assume "r \<in> set (rows df3)"
    then obtain i where "i < length (rows df3)" "r = rows df3 ! i"
      by (auto simp: in_set_conv_nth)
    then show "clean (cell_at r c)"
      using c3 [of i c] len3 by simp
  qed
  with conv show ?thesis by blast
qed

lemma exported_frame:
  fixes f :: frame
  assumes cl: "\<forall>r \<in> set (rows f). \<forall>c. clean (cell_at r c)"
    and w1: "\<forall>a. csv_field lib (Num a) \<notin> set na_values"
    and w2: "\<forall>t. csv_field lib (Stamp t) \<notin> set na_values"
  shows "hd (csv_data (render lib f)) = add_column (columns f) ''year_month''"
    and "length (csv_data (render lib f)) = Suc (tx_count (render lib f))"
    and "tx_count (render lib f) = length (rows f)"
    and "\<forall>i c. i < length (rows f) \<longrightarrow> c \<noteq> ''year_month'' \<longrightarrow>
           cell_at (rows (shown (render lib f)) ! i) c = cell_at (rows f ! i) c"
    and "\<forall>i. i < length (rows f) \<longrightarrow>
           cell_at (rows (shown (render lib f)) ! i) ''year_month'' =
             year_month_str (cell_at (rows f ! i) ''_date'')"
    and "\<forall>i. i < length (rows f) \<longrightarrow>
           tl (csv_data (render lib f)) ! i =
             map (\<lambda>c. field_text lib (cell_at (rows (shown (render lib f)) ! i) c))
               (hd (csv_data (render lib f)))"
    and "\<exists>reread. read_records (csv_data (render lib f)) = Inr reread
           \<and> columns reread = hd (csv_data (render lib f))
           \<and> length (rows reread) = length (rows f)
           \<and> (\<forall>i c. i < length (rows f) \<longrightarrow> c \<in> set (hd (csv_data (render lib f))) \<longrightarrow>
                 cell_at (rows reread ! i) c =
                   as_text lib (cell_at (rows (shown (render lib f)) ! i) c))"
proof -
  let ?f2 = "setitem f ''year_month'' (map year_month_str (column f ''_date''))"
  have sh: "shown (render lib f) = ?f2" and cs: "csv_data (render lib f) = to_csv lib ?f2"
    and n: "tx_count (render lib f) = length (rows f)"
    by (simp_all add: render_def Let_def)
  have len: "length (rows ?f2) = length (rows f)"
    by (simp add: length_rows_setitem)
  have cell: "cell_at (rows ?f2 ! i) c =
      (if c = ''year_month'' then year_month_str (cell_at (rows f ! i) ''_date'')
       else cell_at (rows f ! i) c)" if "i < length (rows f)" for i c
    using that by (simp add: cell_setitem aligned_column)
  have cl2: "clean (cell_at (rows ?f2 ! i) c)" if i: "i < length (rows f)" for i c
  proof (cases "c = ''year_month''")
    case True
    obtain s where "year_month_str (cell_at (rows f ! i) ''_date'') = Str s" "s \<notin> set na_values"
      using year_month_not_na by blast
    then show ?thesis using cell [OF i, of c] True by (simp add: clean_def)
  next
    case False
    then show ?thesis using cell [OF i, of c] cl i by simp
  qed
  show "hd (csv_data (render lib f)) = add_column (columns f) ''year_month''"
    by (simp add: cs to_csv_shape columns_setitem)
  show "length (csv_data (render lib f)) = Suc (tx_count (render lib f))"
    by (simp add: cs n to_csv_shape len)
  show "tx_count (render lib f) = length (rows f)"
    by (rule n)
  show "\<forall>i c. i < length (rows f) \<longrightarrow> c \<noteq> ''year_month'' \<longrightarrow>
           cell_at (rows (shown (render lib f)) ! i) c = cell_at (rows f ! i) c"
    by (simp add: sh cell)
  show "\<forall>i. i < length (rows f) \<longrightarrow>
           cell_at (rows (shown (render lib f)) ! i) ''year_month'' =
             year_month_str (cell_at (rows f ! i) ''_date'')"
    by (simp add: sh cell)
  show "\<forall>i. i < length (rows f) \<longrightarrow>
           tl (csv_data (render lib f)) ! i =
             map (\<lambda>c. field_text lib (cell_at (rows (shown (render lib f)) ! i) c))
               (hd (csv_data (render lib f)))"
    by (simp add: cs sh to_csv_shape len)
  from to_csv_read [of lib ?f2] obtain reread :: frame where
    b: "read_records (to_csv lib ?f2) = Inr reread" "columns reread = columns ?f2"
      "length (rows reread) = length (rows ?f2)"
      "\<forall>i c. i < length (rows ?f2) \<longrightarrow> c \<in> set (columns ?f2) \<longrightarrow>
           cell_at (rows reread ! i) c = read_field (field_text lib (cell_at (rows ?f2 ! i) c))"
    by (elim exE conjE)
  have "cell_at (rows reread ! i) c = as_text lib (cell_at (rows ?f2 ! i) c)"
    if "i < length (rows f)" "c \<in> set (columns ?f2)" for i c
    using b(4) that len read_written [OF cl2 [OF that(1)] w1 w2] by simp
  then show "\<exists>reread. read_records (csv_data (render lib f)) = Inr reread
           \<and> columns reread = hd (csv_data (render lib f))
           \<and> length (rows reread) = length (rows f)
           \<and> (\<forall>i c. i < length (rows f) \<longrightarrow> c \<in> set (hd (csv_data (render lib f))) \<longrightarrow>
                 cell_at (rows reread ! i) c =
                   as_text lib (cell_at (rows (shown (render lib f)) ! i) c))"
    using b(1,2,3) len
    by (intro exI [of _ reread]) (simp add: cs sh to_csv_shape)
qed

lemma export_header:
  "hd (csv_data (render lib f)) = add_column (columns f) ''year_month''"
  by (simp add: render_def Let_def to_csv_def columns_setitem)

lemma na_values_end: "s \<in> set na_values \<Longrightarrow> take 2 (rev s) \<noteq> ''0.''"
  by (auto simp: na_values_def)

lemma na_values_length: "s \<in> set na_values \<Longrightarrow> length s < 10"
  by (auto simp: na_values_def)

lemma decimal_not_na: "xs @ ''.0'' \<notin> set na_values"
proof
  assume "xs @ ''.0'' \<in> set na_values"
  from na_values_end [OF this] show False by simp
qed

lemma stamp_text_not_na: "scalar_text (Stamp t) \<notin> set na_values"
proof
  assume a: "scalar_text (Stamp t) \<in> set na_values"
  obtain y m d u where "t = ((y, m, d), u)" by (metis surj_pair)
  then have "length (scalar_text (Stamp t)) = 10"
    by (simp add: scalar_text_def)
  with na_values_length [OF a] show False by simp
qed

lemma csv_lib_texts:
  "\<forall>a. py_str csv_lib (Num a) \<notin> set na_values"
  "\<forall>t. py_str csv_lib (Stamp t) \<notin> set na_values"
  "\<forall>a. csv_field csv_lib (Num a) \<notin> set na_values"
  "\<forall>t. csv_field csv_lib (Stamp t) \<notin> set na_values"
proof -
  have n: "scalar_text (Num a) \<notin> set na_values" for a
    by (simp add: scalar_text_def decimal_not_na)
  show "\<forall>a. py_str csv_lib (Num a) \<notin> set na_values"
    "\<forall>a. csv_field csv_lib (Num a) \<notin> set na_values"
    using n by (simp_all add: csv_lib_def)
  show "\<forall>t. py_str csv_lib (Stamp t) \<notin> set na_values"
    "\<forall>t. csv_field csv_lib (Stamp t) \<notin> set na_values"
    using stamp_text_not_na by (simp_all add: csv_lib_def del: split_paired_All)
qed

lemma budget_clean: "\<forall>r \<in> set (rows budget). \<forall>c. clean (cell_at r c)"
  by (simp add: budget_def budget_row_def cell_at_def clean_def na_values_def)

text \<open>
  Claim C7, as amended. Let the table hold the chosen columns, let none of its strings
  be one of the reader's texts for a missing value, and let the library write no number
  and no Timestamp as such a text. Then the conversion succeeds, and for every
  selection of the converted rows the download of lines 193 to 204 is this: its header
  is the original columns followed by the four derived columns \<^verbatim>\<open>_date\<close>, \<^verbatim>\<open>_amount\<close>,
  \<^verbatim>\<open>_category\<close> and \<^verbatim>\<open>year_month\<close> and no other (a derived name that the table already
  has takes the place of that column instead of being added); it has one record per
  selected row, in the rows' order; the exported row is the selected row with its
  year and month added; and each field is the text of the row's cell in the column
  of the header. Reading the download again gives the same header, as many rows, and
  in every row and column the cell of the exported row as text: a missing value
  stays missing, a string is the same string, a number or a Timestamp is the text
  the library writes for it. Whether a run reaches line 204 is not part of the
  statement.
\<close>

theorem export_round_trip:
  fixes df :: frame
  assumes "date_col \<in> set (columns df)" and "amount_col \<in> set (columns df)"
    and "category_col \<in> set (columns df) \<or> category_col = ''(none)''"
    and tbl: "\<forall>r \<in> set (rows df). \<forall>c. clean (cell_at r c)"
    and p1: "\<forall>a. py_str lib (Num a) \<notin> set na_values"
    and p2: "\<forall>t. py_str lib (Stamp t) \<notin> set na_values"
    and w1: "\<forall>a. csv_field lib (Num a) \<notin> set na_values"
    and w2: "\<forall>t. csv_field lib (Stamp t) \<notin> set na_values"
  shows "\<exists>df3. convert_fields lib df date_col amount_col category_col = Inr df3
     \<and> (\<forall>keep d. d = render lib (mask_rows df3 keep) \<longrightarrow>
          prefix (columns df) (hd (csv_data d))
        \<and> set (hd (csv_data d)) =
            set (columns df) \<union> {''_date'', ''_amount'', ''_category'', ''year_month''}
        \<and> (set (columns df) \<inter> {''_date'', ''_amount'', ''_category'', ''year_month''} = {} \<longrightarrow>
             hd (csv_data d) = columns df @ [''_date'', ''_amount'', ''_category'', ''year_month''])
        \<and> length (csv_data d) = Suc (tx_count d)
        \<and> tx_count d = length (rows (mask_rows df3 keep))
        \<and> (\<forall>i c. i < tx_count d \<longrightarrow> c \<noteq> ''year_month'' \<longrightarrow>
              cell_at (rows (shown d) ! i) c = cell_at (rows (mask_rows df3 keep) ! i) c)
        \<and> (\<forall>i. i < tx_count d \<longrightarrow>
              cell_at (rows (shown d) ! i) ''year_month'' =
                year_month_str (cell_at (rows (mask_rows df3 keep) ! i) ''_date''))
        \<and> (\<forall>i. i < tx_count d \<longrightarrow>
              tl (csv_data d) ! i =
                map (\<lambda>c. field_text lib (cell_at (rows (shown d) ! i) c)) (hd (csv_data d)))
        \<and> (\<exists>reread. read_records (csv_data d) = Inr reread
              \<and> columns reread = hd (csv_data d)
              \<and> length (rows reread) = tx_count d
              \<and> (\<forall>i c. i < tx_count d \<longrightarrow> c \<in> set (hd (csv_data d)) \<longrightarrow>
                    cell_at (rows reread ! i) c = as_text lib (cell_at (rows (shown d) ! i) c))))"
proof -
  from converted_clean [OF assms(1-3) tbl p1 p2] obtain df3 :: frame where
    conv: "convert_fields lib df date_col amount_col category_col = Inr df3"
    and cl3: "\<forall>r \<in> set (rows df3). \<forall>c. clean (cell_at r c)"
    by (elim exE conjE)
  have all: "prefix (columns df) (hd (csv_data d))
        \<and> set (hd (csv_data d)) =
            set (columns df) \<union> {''_date'', ''_amount'', ''_category'', ''year_month''}
        \<and> (set (columns df) \<inter> {''_date'', ''_amount'', ''_category'', ''year_month''} = {} \<longrightarrow>
             hd (csv_data d) = columns df @ [''_date'', ''_amount'', ''_category'', ''year_month''])
        \<and> length (csv_data d) = Suc (tx_count d)
        \<and> tx_count d = length (rows (mask_rows df3 keep))
        \<and> (\<forall>i c. i < tx_count d \<longrightarrow> c \<noteq> ''year_month'' \<longrightarrow>
              cell_at (rows (shown d) ! i) c = cell_at (rows (mask_rows df3 keep) ! i) c)
        \<and> (\<forall>i. i < tx_count d \<longrightarrow>
              cell_at (rows (shown d) ! i) ''year_month'' =
                year_month_str (cell_at (rows (mask_rows df3 keep) ! i) ''_date''))
        \<and> (\<forall>i. i < tx_count d \<longrightarrow>
              tl (csv_data d) ! i =
                map (\<lambda>c. field_text lib (cell_at (rows (shown d) ! i) c)) (hd (csv_data d)))
        \<and> (\<exists>reread. read_records (csv_data d) = Inr reread
              \<and> columns reread = hd (csv_data d)
              \<and> length (rows reread) = tx_count d
              \<and> (\<forall>i c. i < tx_count d \<longrightarrow> c \<in> set (hd (csv_data d)) \<longrightarrow>
                    cell_at (rows reread ! i) c = as_text lib (cell_at (rows (shown d) ! i) c)))"
    if d: "d = render lib (mask_rows df3 keep)" for keep d
  proof -
    let ?f = "mask_rows df3 keep"
    have clf: "\<forall>r \<in> set (rows ?f). \<forall>c. clean (cell_at r c)"
      using cl3 rows_mask_rows_subset [of df3 keep] by blast
    note e = exported_frame [OF clf w1 w2]
    have h: "hd (csv_data d) =
        add_column (add_column (add_column (add_column (columns df) ''_date'') ''_amount'')
          ''_category'') ''year_month''"
      by (simp add: d e(1) columns_mask_rows columns_convert_fields [OF conv])
    have p: "prefix (columns df) (hd (csv_data d))"
      unfolding h by (blast intro: prefix_order.order_trans prefix_add_column)
    have s: "set (hd (csv_data d)) =
         set (columns df) \<union> {''_date'', ''_amount'', ''_category'', ''year_month''}"
      unfolding h by (auto simp: set_add_column)
    have q: "hd (csv_data d) = columns df @ [''_date'', ''_amount'', ''_category'', ''year_month'']"
      if "set (columns df) \<inter> {''_date'', ''_amount'', ''_category'', ''year_month''} = {}"
      using that unfolding h by (simp add: add_column_def)
    have n: "tx_count d = length (rows ?f)"
      by (simp add: d e(3))
    have q': "set (columns df) \<inter> {''_date'', ''_amount'', ''_category'', ''year_month''} = {} \<longrightarrow>
             hd (csv_data d) = columns df @ [''_date'', ''_amount'', ''_category'', ''year_month'']"
      using q by blast
    have e2: "length (csv_data d) = Suc (tx_count d)"
      using e(2) by (simp add: d)
    have e4: "\<forall>i c. i < tx_count d \<longrightarrow> c \<noteq> ''year_month'' \<longrightarrow>
              cell_at (rows (shown d) ! i) c = cell_at (rows ?f ! i) c"
      unfolding d e(3) by (rule e(4))
    have e5: "\<forall>i. i < tx_count d \<longrightarrow>
              cell_at (rows (shown d) ! i) ''year_month'' =
                year_month_str (cell_at (rows ?f ! i) ''_date'')"
      unfolding d e(3) by (rule e(5))
    have e6: "\<forall>i. i < tx_count d \<longrightarrow>
              tl (csv_data d) ! i =
                map (\<lambda>c. field_text lib (cell_at (rows (shown d) ! i) c)) (hd (csv_data d))"
      unfolding d e(3) by (rule e(6))
    have e7: "\<exists>reread. read_records (csv_data d) = Inr reread
              \<and> columns reread = hd (csv_data d)
              \<and> length (rows reread) = tx_count d
              \<and> (\<forall>i c. i < tx_count d \<longrightarrow> c \<in> set (hd (csv_data d)) \<longrightarrow>
                    cell_at (rows reread ! i) c = as_text lib (cell_at (rows (shown d) ! i) c))"
      unfolding d e(3) by (rule e(7))
    show ?thesis
      by (intro conjI) (fact p s q' e2 n e4 e5 e6 e7)+
  qed
  show ?thesis
    apply (rule exI [of _ df3])
    apply (rule conjI [OF conv])
    apply (rule allI, rule allI, rule impI)
    apply (erule all)
    done
qed

theorem export_round_trip_witness:
  "\<exists>df3. convert_fields csv_lib budget ''date'' ''amount'' ''category'' = Inr df3
     \<and> hd (csv_data (render csv_lib (mask_rows df3 [True, False, True]))) =
         [''date'', ''amount'', ''category'', ''_date'', ''_amount'', ''_category'', ''year_month'']
     \<and> length (csv_data (render csv_lib (mask_rows df3 [True, False, True]))) = 3
     \<and> (\<exists>reread. read_records (csv_data (render csv_lib (mask_rows df3 [True, False, True])))
            = Inr reread
          \<and> columns reread =
              [''date'', ''amount'', ''category'', ''_date'', ''_amount'', ''_category'', ''year_month'']
          \<and> length (rows reread) = 2)"
proof -
  have cols: "''date'' \<in> set (columns budget)" "''amount'' \<in> set (columns budget)"
    "''category'' \<in> set (columns budget) \<or> ''category'' = ''(none)''"
    by (simp_all add: budget_def)
  have fresh: "set (columns budget) \<inter> {''_date'', ''_amount'', ''_category'', ''year_month''} = {}"
    by (simp add: budget_def)
  have names: "columns budget @ [''_date'', ''_amount'', ''_category'', ''year_month''] =
       [''date'', ''amount'', ''category'', ''_date'', ''_amount'', ''_category'', ''year_month'']"
    by (simp add: budget_def)
  from budget_converted [OF csv_lib_dates csv_lib_numbers] obtain df3 :: frame where
    conv: "convert_fields csv_lib budget ''date'' ''amount'' ''category'' = Inr df3"
    and three: "length (rows df3) = 3"
    by (elim exE conjE)
  let ?d = "render csv_lib (mask_rows df3 [True, False, True])"
  have pick: "P y k (g y k)"
    if "\<exists>x. f = Inr x \<and> (\<forall>k d. d = g x k \<longrightarrow> P x k d)" and "f = Inr y"
    for P and f :: "exn + frame" and g :: "frame \<Rightarrow> bool list \<Rightarrow> dashboard" and y k
    using that by auto
  note all = pick [where k = "[True, False, True]",
      OF export_round_trip [OF cols budget_clean csv_lib_texts] conv]
  have hdr: "set (columns budget) \<inter> {''_date'', ''_amount'', ''_category'', ''year_month''} = {}
      \<longrightarrow> hd (csv_data ?d) = columns budget @ [''_date'', ''_amount'', ''_category'', ''year_month'']"
    using all by (elim conjE)
  have len: "length (csv_data ?d) = Suc (tx_count ?d)"
    using all by (elim conjE)
  have cnt: "tx_count ?d = length (rows (mask_rows df3 [True, False, True]))"
    using all by (elim conjE)
  have rd: "\<exists>reread. read_records (csv_data ?d) = Inr reread
          \<and> columns reread = hd (csv_data ?d)
          \<and> length (rows reread) = tx_count ?d
          \<and> (\<forall>i c. i < tx_count ?d \<longrightarrow> c \<in> set (hd (csv_data ?d)) \<longrightarrow>
                cell_at (rows reread ! i) c = as_text csv_lib (cell_at (rows (shown ?d) ! i) c))"
    using all by (elim conjE)
  from three obtain a b c where "rows df3 = [a, b, c]"
    by (auto simp: length_Suc_conv numeral_3_eq_3)
  then have two: "length (rows (mask_rows df3 [True, False, True])) = 2"
    by (simp add: mask_rows_def)
  have h: "hd (csv_data ?d) =
      [''date'', ''amount'', ''category'', ''_date'', ''_amount'', ''_category'', ''year_month'']"
    using hdr fresh names by (simp only: simp_thms)
  from rd obtain reread where
    r: "read_records (csv_data ?d) = Inr reread"
      "columns reread = hd (csv_data ?d)"
      "length (rows reread) = tx_count ?d"
    by (elim exE conjE)
  have l3: "length (csv_data ?d) = 3"
    by (simp only: len cnt two)
  have r2: "columns reread =
      [''date'', ''amount'', ''category'', ''_date'', ''_amount'', ''_category'', ''year_month'']"
    by (simp only: r(2) h)
  have r3: "length (rows reread) = 2"
    by (simp only: r(3) cnt two)
  show ?thesis
    using conv h l3 r(1) r2 r3
    by (intro exI [of _ df3] conjI exI [of _ reread]) assumption+
qed

text \<open>
  Claim C7 as stated says that the download holds the original columns and exactly
  three derived columns. Line 193 adds \<^verbatim>\<open>year_month\<close> to the filtered table before
  line 204 writes it: over the scenario's three converted rows the header has seven
  names, the fourth derived one being \<^verbatim>\<open>year_month\<close>, and is not the header of six
  names. The run of the scenario itself ends at line 135 and writes no download.
\<close>

theorem export_round_trip_counterexample:
  "budget_run = Inl (Raised TypeError)
   \<and> map_sum id (hd \<circ> csv_data \<circ> render csv_lib)
        (convert_fields csv_lib budget ''date'' ''amount'' ''category'')
      = Inr [''date'', ''amount'', ''category'', ''_date'', ''_amount'', ''_category'', ''year_month'']
   \<and> map_sum id (hd \<circ> csv_data \<circ> render csv_lib)
        (convert_fields csv_lib budget ''date'' ''amount'' ''category'')
      \<noteq> Inr [''date'', ''amount'', ''category'', ''_date'', ''_amount'', ''_category'']"
proof -
  from budget_converted [OF csv_lib_dates csv_lib_numbers] obtain df3 :: frame where
    conv: "convert_fields csv_lib budget ''date'' ''amount'' ''category'' = Inr df3"
    and f: "columns df3 = [''date'', ''amount'', ''category'', ''_date'', ''_amount'', ''_category'']"
    by (elim exE conjE)
  have h: "hd (csv_data (render csv_lib df3)) =
      [''date'', ''amount'', ''category'', ''_date'', ''_amount'', ''_category'', ''year_month'']"
    by (simp add: export_header f add_column_def)
  show ?thesis
    by (simp add: budget_run_raises conv h)
qed

end
